theory Spec2Isabelle
  imports Complex_Main "HOL-Library.Multiset"
begin

section \<open>Collaborator calls and their outcomes\<close>

text \<open>
  The store (\<open>crypto_db\<close>), the cache manager (\<open>simple_redis_manager\<close>), the quality
  scorer (\<open>timestamp_manager\<close>) and the scraper are collaborators of the modelled code.
  A call to one of them either raises a Python exception or returns a value; what it
  returns is a parameter of the model. Floats and SQL decimals are modelled as reals.
\<close>

datatype 'a outcome = Raises | Returns 'a

section \<open>The read path of \<open>crypto_web_app.py\<close>\<close>

subsection \<open>Data\<close>

text \<open>A row of the \<open>hour_data\<close> table, as far as the 24h query reads it. Dates are seconds.\<close>

record hour_row =
  hr_symbol :: string
  hr_date :: int
  hr_close :: "real option"

text \<open>What \<open>cursor.fetchone()\<close> gives: no row, or a one-column row whose value may be NULL.\<close>

datatype fetched = NoRow | Row "real option"

text \<open>A row of \<open>db.get_latest_prices\<close>: \<open>(name, symbol, price, api_change_24h, timestamp)\<close>.\<close>

record price_row =
  row_name :: string
  row_symbol :: string
  row_price :: real
  row_api_change_24h :: "real option"
  row_timestamp :: string

text \<open>An entry of the list that \<open>get_latest_prices\<close> returns.\<close>

record price_view =
  pv_name :: string
  pv_symbol :: string
  pv_price :: real
  pv_change_24h :: real
  pv_timestamp :: string

text \<open>
  The cache manager as the read path sees it: what \<open>get_latest_prices()\<close> answers
  (an exception, \<open>None\<close>, or a list) and whether \<open>cache_latest_prices\<close> raises.
\<close>

record cache_manager =
  cm_get_latest_prices :: "price_view list option outcome"
  cm_cache_latest_prices_raises :: bool

text \<open>
  Everything \<open>get_latest_prices\<close> reads from outside: \<open>self.redis_manager\<close> (\<open>None\<close>
  when its construction failed), the answer of \<open>db.get_connection()\<close> (an exception,
  a falsy value, or a connection), the answer of \<open>db.get_latest_prices\<close>, the content of
  \<open>hour_data\<close>, the symbols for which the hour query raises, and the store's clock.
\<close>

record web_env =
  redis_manager :: "cache_manager option"
  db_get_connection :: "bool outcome"
  db_get_latest_prices :: "price_row list option outcome"
  hour_data :: "hour_row list"
  hour_query_raises :: "string \<Rightarrow> bool"
  now :: int

text \<open>
  The calls the read path makes, in order. \<open>DbGetConnection\<close> carries whether a
  connection was obtained; \<open>CachePutLatestRaised\<close> records that the put just called
  raised (the exception is swallowed and logged).
\<close>

datatype event =
    CacheGetLatest
  | CachePutLatest "price_view list"
  | CachePutLatestRaised
  | DbGetConnection bool
  | DbQueryLatest
  | DbQueryHour string
  | ConnClose

subsection \<open>\<open>calculate_24h_change\<close>\<close>

text \<open>
  The SQL of \<open>calculate_24h_change\<close>: the rows of \<open>hour_data\<close> for the symbol dated at
  or before \<open>NOW() - 24 HOUR\<close>, the latest first, one row at most.
\<close>

definition at_or_before_24h :: "int \<Rightarrow> string \<Rightarrow> hour_row \<Rightarrow> bool" where
  "at_or_before_24h t s r \<longleftrightarrow> hr_symbol r = s \<and> hr_date r \<le> t - 24 * 3600"

fun latest_row :: "hour_row list \<Rightarrow> hour_row option" where
  "latest_row [] = None"
| "latest_row (r # rs) =
     (case latest_row rs of
        None \<Rightarrow> Some r
      | Some r' \<Rightarrow> if hr_date r' \<le> hr_date r then Some r else Some r')"

definition query_24h_ago :: "hour_row list \<Rightarrow> int \<Rightarrow> string \<Rightarrow> fetched" where
  "query_24h_ago rows t s =
     (case latest_row (filter (at_or_before_24h t s) rows) of
        None \<Rightarrow> NoRow
      | Some r \<Rightarrow> Row (hr_close r))"

text \<open>
  \<open>calculate_24h_change\<close>: any exception of the query gives \<open>None\<close>; so does a missing
  row and a falsy \<open>result[0]\<close> (NULL or zero).
\<close>

definition calculate_24h_change :: "web_env \<Rightarrow> string \<Rightarrow> real \<Rightarrow> real option" where
  "calculate_24h_change env s current_price =
     (if hour_query_raises env s then None
      else case query_24h_ago (hour_data env) (now env) s of
             NoRow \<Rightarrow> None
           | Row None \<Rightarrow> None
           | Row (Some price_24h_ago) \<Rightarrow>
               if price_24h_ago \<noteq> 0
               then Some (((current_price - price_24h_ago) / price_24h_ago) * 100)
               else None)"

text \<open>
  The expression of \<open>get_latest_prices\<close> that picks the change: the calculated value
  unless it is \<open>None\<close>, else the API value unless it is \<open>None\<close>, else \<open>0.0\<close>.
\<close>

definition pick_change_24h :: "real option \<Rightarrow> real option \<Rightarrow> real" where
  "pick_change_24h calculated_change api_change_24h =
     (case calculated_change of
        Some c \<Rightarrow> c
      | None \<Rightarrow> (case api_change_24h of Some a \<Rightarrow> a | None \<Rightarrow> 0))"

definition price_entry :: "web_env \<Rightarrow> price_row \<Rightarrow> price_view" where
  "price_entry env item =
     (let current_price = row_price item;
          calculated_change = calculate_24h_change env (row_symbol item) current_price
      in \<lparr>pv_name = row_name item,
          pv_symbol = row_symbol item,
          pv_price = current_price,
          pv_change_24h = pick_change_24h calculated_change (row_api_change_24h item),
          pv_timestamp = row_timestamp item\<rparr>)"

subsection \<open>\<open>get_latest_prices\<close>\<close>

text \<open>
  The first block: the cache is asked only when a manager exists; a truthy answer is
  returned at once, an exception or a falsy answer falls through to the store.
\<close>

definition cached_latest_prices :: "web_env \<Rightarrow> price_view list option \<times> event list" where
  "cached_latest_prices env =
     (case redis_manager env of
        None \<Rightarrow> (None, [])
      | Some cm \<Rightarrow>
          (case cm_get_latest_prices cm of
             Raises \<Rightarrow> (None, [CacheGetLatest])
           | Returns None \<Rightarrow> (None, [CacheGetLatest])
           | Returns (Some cached_prices) \<Rightarrow>
               if cached_prices \<noteq> [] then (Some cached_prices, [CacheGetLatest])
               else (None, [CacheGetLatest])))"

text \<open>
  The second block, with its \<open>try\<close>/\<open>except\<close>/\<open>finally\<close>: every exception gives \<open>[]\<close>,
  and the connection, once obtained, is closed on the way out. The fields of a row
  have the types of \<open>price_row\<close>, so the conversions of the loop do not raise.
\<close>

definition stored_latest_prices :: "web_env \<Rightarrow> price_view list \<times> event list" where
  "stored_latest_prices env =
     (case db_get_connection env of
        Raises \<Rightarrow> ([], [DbGetConnection False])
      | Returns False \<Rightarrow> ([], [DbGetConnection False])
      | Returns True \<Rightarrow>
          (case db_get_latest_prices env of
             Raises \<Rightarrow> ([], [DbGetConnection True, DbQueryLatest, ConnClose])
           | Returns None \<Rightarrow> ([], [DbGetConnection True, DbQueryLatest, ConnClose])
           | Returns (Some data) \<Rightarrow>
               if data = [] then ([], [DbGetConnection True, DbQueryLatest, ConnClose])
               else
                 let result = map (price_entry env) data;
                     queries = map (\<lambda>item. DbQueryHour (row_symbol item)) data;
                     put = (case redis_manager env of
                              None \<Rightarrow> []
                            | Some cm \<Rightarrow>
                                if result \<noteq> [] then
                                  (if cm_cache_latest_prices_raises cm
                                   then [CachePutLatest result, CachePutLatestRaised]
                                   else [CachePutLatest result])
                                else [])
                 in (result,
                     [DbGetConnection True, DbQueryLatest] @ queries @ put @ [ConnClose])))"

definition get_latest_prices :: "web_env \<Rightarrow> price_view list \<times> event list" where
  "get_latest_prices env =
     (case cached_latest_prices env of
        (Some cached_prices, tr) \<Rightarrow> (cached_prices, tr)
      | (None, tr) \<Rightarrow>
          (case stored_latest_prices env of (result, tr') \<Rightarrow> (result, tr @ tr')))"

subsection \<open>\<open>get_chart_data\<close>\<close>

text \<open>
  An item of \<open>db.get_chart_data\<close>, and the item \<open>get_chart_data\<close> makes of it by adding
  the symbol. The type of a date is left open; \<open>timestamp_ms\<close> may be \<open>None\<close>.
\<close>

record 'd chart_row =
  cr_date :: 'd
  cr_timestamp_ms :: "int option"
  cr_open :: real
  cr_high :: real
  cr_low :: real
  cr_close :: real
  cr_volume :: real

record 'd chart_item =
  ci_symbol :: string
  ci_date :: 'd
  ci_timestamp_ms :: "int option"
  ci_open :: real
  ci_high :: real
  ci_low :: real
  ci_close :: real
  ci_volume :: real

record 'd chart_cache =
  cc_get_chart_data :: "string \<Rightarrow> string \<Rightarrow> 'd chart_item list option outcome"
  cc_cache_chart_data_raises :: bool

record 'd chart_env =
  ce_redis_manager :: "'d chart_cache option"
  ce_db_connect :: "bool outcome"
  ce_db_get_chart_data :: "string \<Rightarrow> string \<Rightarrow> 'd chart_row list option outcome"

datatype 'd chart_event =
    CacheGetChart string string
  | CachePutChart string string "'d chart_item list"
  | CachePutChartRaised
  | DbConnect bool
  | DbQueryChart string string
  | DbDisconnect

text \<open>Python's truth value of the \<open>symbol\<close> argument: \<open>None\<close> and \<open>''\<close> are falsy.\<close>

definition truthy_symbol :: "string option \<Rightarrow> bool" where
  "truthy_symbol symbol \<longleftrightarrow> (case symbol of None \<Rightarrow> False | Some s \<Rightarrow> s \<noteq> [])"

definition chart_item_of :: "string \<Rightarrow> 'd chart_row \<Rightarrow> 'd chart_item" where
  "chart_item_of s item =
     \<lparr>ci_symbol = s, ci_date = cr_date item, ci_timestamp_ms = cr_timestamp_ms item,
      ci_open = cr_open item, ci_high = cr_high item, ci_low = cr_low item,
      ci_close = cr_close item, ci_volume = cr_volume item\<rparr>"

definition cached_chart_data ::
  "'d chart_env \<Rightarrow> string \<Rightarrow> string option \<Rightarrow> 'd chart_item list option \<times> 'd chart_event list" where
  "cached_chart_data env timeframe symbol =
     (case ce_redis_manager env of
        None \<Rightarrow> (None, [])
      | Some cm \<Rightarrow>
          if truthy_symbol symbol then
            (case cc_get_chart_data cm (the symbol) timeframe of
               Raises \<Rightarrow> (None, [CacheGetChart (the symbol) timeframe])
             | Returns None \<Rightarrow> (None, [CacheGetChart (the symbol) timeframe])
             | Returns (Some cached_data) \<Rightarrow>
                 if cached_data \<noteq> [] then (Some cached_data, [CacheGetChart (the symbol) timeframe])
                 else (None, [CacheGetChart (the symbol) timeframe]))
          else (None, []))"

text \<open>
  The store block of \<open>get_chart_data\<close>. \<open>disconnect\<close> is a plain statement after the
  query, not a \<open>finally\<close>: a query that raises goes to the \<open>except\<close> branch at once.
\<close>

definition stored_chart_data ::
  "'d chart_env \<Rightarrow> string \<Rightarrow> string option \<Rightarrow> 'd chart_item list \<times> 'd chart_event list" where
  "stored_chart_data env timeframe symbol =
     (if \<not> truthy_symbol symbol then ([], [])
      else
        let s = the symbol in
        case ce_db_connect env of
          Raises \<Rightarrow> ([], [DbConnect False])
        | Returns False \<Rightarrow> ([], [DbConnect False])
        | Returns True \<Rightarrow>
            (case ce_db_get_chart_data env s timeframe of
               Raises \<Rightarrow> ([], [DbConnect True, DbQueryChart s timeframe])
             | Returns None \<Rightarrow> ([], [DbConnect True, DbQueryChart s timeframe, DbDisconnect])
             | Returns (Some data) \<Rightarrow>
                 if data = [] then ([], [DbConnect True, DbQueryChart s timeframe, DbDisconnect])
                 else
                   let result = map (chart_item_of s) data;
                       put = (case ce_redis_manager env of
                                None \<Rightarrow> []
                              | Some cm \<Rightarrow>
                                  if result \<noteq> [] then
                                    (if cc_cache_chart_data_raises cm
                                     then [CachePutChart s timeframe result, CachePutChartRaised]
                                     else [CachePutChart s timeframe result])
                                  else [])
                   in (result,
                       [DbConnect True, DbQueryChart s timeframe, DbDisconnect] @ put)))"

text \<open>The \<open>limit\<close> argument is accepted and not used, as in the source.\<close>

definition get_chart_data ::
  "'d chart_env \<Rightarrow> string \<Rightarrow> string option \<Rightarrow> nat \<Rightarrow> 'd chart_item list \<times> 'd chart_event list" where
  "get_chart_data env timeframe symbol limit =
     (case cached_chart_data env timeframe symbol of
        (Some cached_data, tr) \<Rightarrow> (cached_data, tr)
      | (None, tr) \<Rightarrow>
          (case stored_chart_data env timeframe symbol of (result, tr') \<Rightarrow> (result, tr @ tr')))"

text \<open>
  Connections a trace leaves open: each successful acquisition opens one, each
  \<open>close\<close>/\<open>disconnect\<close> returns one.
\<close>

fun open_after :: "nat \<Rightarrow> event list \<Rightarrow> nat" where
  "open_after k [] = k"
| "open_after k (DbGetConnection True # tr) = open_after (Suc k) tr"
| "open_after k (ConnClose # tr) = open_after (k - 1) tr"
| "open_after k (_ # tr) = open_after k tr"

fun chart_open_after :: "nat \<Rightarrow> 'd chart_event list \<Rightarrow> nat" where
  "chart_open_after k [] = k"
| "chart_open_after k (DbConnect True # tr) = chart_open_after (Suc k) tr"
| "chart_open_after k (DbDisconnect # tr) = chart_open_after (k - 1) tr"
| "chart_open_after k (_ # tr) = chart_open_after k tr"

subsection \<open>\<open>process_chart_data\<close>\<close>

record 'd price_point =
  pp_date :: 'd
  pp_timestamp_ms :: "int option"
  pp_price :: real
  pp_high :: real
  pp_low :: real
  pp_open :: real

record 'd volume_point =
  vp_date :: 'd
  vp_timestamp_ms :: "int option"
  vp_volume :: real

record 'd volatility_point =
  vo_date :: 'd
  vo_timestamp_ms :: "int option"
  vo_volatility :: real
  vo_volatility_percent :: real

record 'd chart_curves =
  price_data :: "'d price_point list"
  volume_data :: "'d volume_point list"
  volatility_data :: "'d volatility_point list"

definition price_point_of :: "'d chart_item \<Rightarrow> 'd price_point" where
  "price_point_of item =
     \<lparr>pp_date = ci_date item, pp_timestamp_ms = ci_timestamp_ms item,
      pp_price = ci_close item, pp_high = ci_high item, pp_low = ci_low item,
      pp_open = ci_open item\<rparr>"

definition volume_point_of :: "'d chart_item \<Rightarrow> 'd volume_point" where
  "volume_point_of item =
     \<lparr>vp_date = ci_date item, vp_timestamp_ms = ci_timestamp_ms item,
      vp_volume = ci_volume item\<rparr>"

text \<open>
  \<open>window_prices\<close> for position \<open>i\<close>: the closes at the indices
  \<open>range(i - window_size + 1, i + 1)\<close>. It is only computed when
  \<open>i >= window_size - 1\<close>, so the lower index is not negative.
\<close>

definition window_prices :: "'d chart_item list \<Rightarrow> nat \<Rightarrow> nat \<Rightarrow> real list" where
  "window_prices filtered_data window_size i =
     map (\<lambda>j. ci_close (filtered_data ! j)) [i + 1 - window_size ..< i + 1]"

definition mean_price :: "real list \<Rightarrow> real" where
  "mean_price ps = sum_list ps / real (length ps)"

definition variance :: "real list \<Rightarrow> real" where
  "variance ps = sum_list (map (\<lambda>p. (p - mean_price ps) ^ 2) ps) / real (length ps)"

definition volatility_point_of ::
  "'d chart_item list \<Rightarrow> nat \<Rightarrow> nat \<Rightarrow> 'd chart_item \<Rightarrow> 'd volatility_point" where
  "volatility_point_of filtered_data window_size i item =
     (let ps = window_prices filtered_data window_size i;
          volatility = sqrt (variance ps)
      in \<lparr>vo_date = ci_date item, vo_timestamp_ms = ci_timestamp_ms item,
          vo_volatility = volatility,
          vo_volatility_percent =
            (if mean_price ps > 0 then (volatility / mean_price ps) * 100 else 0)\<rparr>)"

text \<open>
  The \<open>for i, item in enumerate(filtered_data)\<close> loop: \<open>i\<close> is the position of \<open>item\<close>,
  the last argument holds the three lists built so far. The test
  \<open>i >= window_size - 1\<close> of the integers is written \<open>i + 1 \<ge> window_size\<close> on the
  naturals.
\<close>

fun chart_loop ::
  "'d chart_item list \<Rightarrow> nat \<Rightarrow> nat \<Rightarrow> 'd chart_item list \<Rightarrow> 'd chart_curves \<Rightarrow> 'd chart_curves" where
  "chart_loop filtered_data window_size i [] acc = acc"
| "chart_loop filtered_data window_size i (item # rest) acc =
     chart_loop filtered_data window_size (Suc i) rest
       \<lparr>price_data = price_data acc @ [price_point_of item],
        volume_data = volume_data acc @ [volume_point_of item],
        volatility_data =
          (if i + 1 \<ge> window_size
           then volatility_data acc @ [volatility_point_of filtered_data window_size i item]
           else volatility_data acc)\<rparr>"

definition no_curves :: "'d chart_curves" where
  "no_curves = \<lparr>price_data = [], volume_data = [], volatility_data = []\<rparr>"

text \<open>\<open>list.sort(key=...)\<close> is stable, as \<open>sort_key\<close> is.\<close>

definition process_chart_data :: "('d::linorder) chart_item list \<Rightarrow> string \<Rightarrow> 'd chart_curves" where
  "process_chart_data data symbol =
     (if data = [] then no_curves
      else
        let filtered_data = filter (\<lambda>item. ci_symbol item = symbol) data in
        if filtered_data = [] then no_curves
        else
          let sorted_data = sort_key ci_date filtered_data;
              window_size = min 10 (length sorted_data)
          in chart_loop sorted_data window_size 0 sorted_data no_curves)"

subsection \<open>\<open>clear_cache\<close>\<close>

text \<open>
  What the three clearing calls of the cache manager answer. The number stands for the
  returned value (a count, or a boolean read as 0 or 1).
\<close>

record clearing_manager =
  clear_price_cache :: "nat outcome"
  clear_chart_cache :: "nat outcome"
  clear_all_cache :: "nat outcome"

datatype clear_message =
    NotEnabled
  | ClearedScope "string option"
  | NotInitialised
  | AllCleared
  | ClearFailed
  | UnsupportedType "string option"
  | ExceptionText

record clear_result =
  success :: bool
  cleared_keys :: "nat option"
  message :: clear_message

text \<open>
  The class body defines \<open>clear_cache\<close> twice. This is the first definition (line 369);
  the class attribute is rebound by the second one, so no call reaches it.
\<close>

definition clear_cache_first :: "clearing_manager option \<Rightarrow> string option \<Rightarrow> clear_result" where
  "clear_cache_first redis cache_type =
     (case redis of
        None \<Rightarrow> \<lparr>success = False, cleared_keys = None, message = NotEnabled\<rparr>
      | Some m \<Rightarrow>
          (case (if cache_type = Some ''prices'' then clear_price_cache m
                 else if cache_type = Some ''charts'' then clear_chart_cache m
                 else clear_all_cache m) of
             Raises \<Rightarrow> \<lparr>success = False, cleared_keys = None, message = ExceptionText\<rparr>
           | Returns result \<Rightarrow>
               \<lparr>success = True, cleared_keys = Some result,
                message = ClearedScope cache_type\<rparr>))"

text \<open>The second definition (line 688), the one \<open>self.clear_cache\<close> calls.\<close>

definition clear_cache :: "clearing_manager option \<Rightarrow> string option \<Rightarrow> clear_result" where
  "clear_cache redis cache_type =
     (case redis of
        None \<Rightarrow> \<lparr>success = False, cleared_keys = None, message = NotInitialised\<rparr>
      | Some m \<Rightarrow>
          if cache_type = Some ''all'' \<or> cache_type = None then
            (case clear_all_cache m of
               Raises \<Rightarrow> \<lparr>success = False, cleared_keys = None, message = ExceptionText\<rparr>
             | Returns ok \<Rightarrow>
                 if ok \<noteq> 0
                 then \<lparr>success = True, cleared_keys = None, message = AllCleared\<rparr>
                 else \<lparr>success = False, cleared_keys = None, message = ClearFailed\<rparr>)
          else \<lparr>success = False, cleared_keys = None, message = UnsupportedType cache_type\<rparr>)"

section \<open>The ingestion passes\<close>

subsection \<open>\<open>RealtimeDataProcessor.process_and_store_realtime_data\<close>\<close>

text \<open>A fetched snapshot sample: the keys the pass reads. Timestamps are seconds.\<close>

record sample =
  s_name :: string
  s_symbol :: string
  s_price :: real
  s_change_24h :: "real option"
  s_timestamp :: int

text \<open>The dictionary put in the cache for a sample: its fields and \<open>cached_at\<close>.\<close>

record cache_item =
  c_name :: string
  c_symbol :: string
  c_price :: real
  c_change_24h :: "real option"
  c_timestamp :: int
  c_cached_at :: int

text \<open>
  What the pass reads from outside: \<open>db.connect()\<close>, the scraper (an exception, \<open>None\<close>
  or a list), the score \<open>get_data_quality_score(timestamp, 'minute')\<close> of a sample,
  whether \<open>log_data_status\<close> raises for it, the answer of \<open>insert_current_price\<close>, the
  answers of the two cache calls, and the clock of \<open>get_current_time\<close>.
\<close>

record rt_env =
  rt_connect :: "bool outcome"
  rt_scrape :: "sample list option outcome"
  rt_quality_score :: "sample \<Rightarrow> real outcome"
  rt_log_data_status_raises :: "sample \<Rightarrow> bool"
  rt_insert_current_price :: "sample \<Rightarrow> bool outcome"
  rt_cache_realtime_prices :: "bool outcome"
  rt_cache_realtime_price :: "sample \<Rightarrow> bool outcome"
  rt_current_time :: int

datatype rt_event =
    RtConnect
  | RtScrape
  | RtQuality sample
  | RtInsert sample
  | RtLogStored sample
  | RtLogStoreFailed sample
  | RtLogSkipped sample
  | RtCacheList "cache_item list"
  | RtCacheOne string cache_item
  | RtLogError
  | RtDisconnect

text \<open>
  One round of the first loop. The boolean says whether the round ended without an
  exception; an exception leaves the loop and the \<open>try\<close> block.
\<close>

definition store_sample :: "rt_env \<Rightarrow> sample \<Rightarrow> rt_event list \<times> bool" where
  "store_sample env d =
     (case rt_quality_score env d of
        Raises \<Rightarrow> ([RtQuality d], False)
      | Returns quality_score \<Rightarrow>
          if rt_log_data_status_raises env d then ([RtQuality d], False)
          else if quality_score \<ge> 0.5 then
            (case rt_insert_current_price env d of
               Raises \<Rightarrow> ([RtQuality d, RtInsert d], False)
             | Returns ok \<Rightarrow>
                 ([RtQuality d, RtInsert d, if ok then RtLogStored d else RtLogStoreFailed d],
                  True))
          else ([RtQuality d, RtLogSkipped d], True))"

fun store_samples :: "rt_env \<Rightarrow> sample list \<Rightarrow> rt_event list \<times> bool" where
  "store_samples env [] = ([], True)"
| "store_samples env (d # ds) =
     (case store_sample env d of
        (evs, False) \<Rightarrow> (evs, False)
      | (evs, True) \<Rightarrow>
          (case store_samples env ds of (evs', fine) \<Rightarrow> (evs @ evs', fine)))"

definition cache_item_of :: "rt_env \<Rightarrow> sample \<Rightarrow> cache_item" where
  "cache_item_of env d =
     \<lparr>c_name = s_name d, c_symbol = s_symbol d, c_price = s_price d,
      c_change_24h = s_change_24h d, c_timestamp = s_timestamp d,
      c_cached_at = rt_current_time env\<rparr>"

text \<open>The last loop: one cache call for each fetched sample.\<close>

fun cache_samples :: "rt_env \<Rightarrow> sample list \<Rightarrow> rt_event list \<times> bool" where
  "cache_samples env [] = ([], True)"
| "cache_samples env (d # ds) =
     (case rt_cache_realtime_price env d of
        Raises \<Rightarrow> ([RtCacheOne (s_symbol d) (cache_item_of env d)], False)
      | Returns _ \<Rightarrow>
          (case cache_samples env ds of
             (evs', fine) \<Rightarrow> (RtCacheOne (s_symbol d) (cache_item_of env d) # evs', fine)))"

text \<open>
  The pass. \<open>db.connect()\<close> is called before the \<open>try\<close>: its exception leaves the
  method. Inside the \<open>try\<close> every exception is logged and gives \<open>False\<close>, and the
  \<open>finally\<close> disconnects.
\<close>

definition process_and_store_realtime_data :: "rt_env \<Rightarrow> bool outcome \<times> rt_event list" where
  "process_and_store_realtime_data env =
     (case rt_connect env of
        Raises \<Rightarrow> (Raises, [RtConnect])
      | Returns False \<Rightarrow> (Returns False, [RtConnect, RtLogError])
      | Returns True \<Rightarrow>
          (case rt_scrape env of
             Raises \<Rightarrow> (Returns False, [RtConnect, RtScrape, RtLogError, RtDisconnect])
           | Returns None \<Rightarrow> (Returns False, [RtConnect, RtScrape, RtDisconnect])
           | Returns (Some realtime_data) \<Rightarrow>
               if realtime_data = [] then (Returns False, [RtConnect, RtScrape, RtDisconnect])
               else
                 (case store_samples env realtime_data of
                    (evs, False) \<Rightarrow>
                      (Returns False, [RtConnect, RtScrape] @ evs @ [RtLogError, RtDisconnect])
                  | (evs, True) \<Rightarrow>
                      let cache_ready_data = map (cache_item_of env) realtime_data in
                      (case rt_cache_realtime_prices env of
                         Raises \<Rightarrow>
                           (Returns False,
                            [RtConnect, RtScrape] @ evs @
                            [RtCacheList cache_ready_data, RtLogError, RtDisconnect])
                       | Returns _ \<Rightarrow>
                           (case cache_samples env realtime_data of
                              (evs', False) \<Rightarrow>
                                (Returns False,
                                 [RtConnect, RtScrape] @ evs @ [RtCacheList cache_ready_data]
                                 @ evs' @ [RtLogError, RtDisconnect])
                            | (evs', True) \<Rightarrow>
                                (Returns True,
                                 [RtConnect, RtScrape] @ evs @ [RtCacheList cache_ready_data]
                                 @ evs' @ [RtDisconnect]))))))"

text \<open>What a trace shows: the samples handed to the store, those skipped, the cached list.\<close>

fun inserted :: "rt_event list \<Rightarrow> sample list" where
  "inserted [] = []"
| "inserted (RtInsert d # tr) = d # inserted tr"
| "inserted (_ # tr) = inserted tr"

fun skipped :: "rt_event list \<Rightarrow> sample list" where
  "skipped [] = []"
| "skipped (RtLogSkipped d # tr) = d # skipped tr"
| "skipped (_ # tr) = skipped tr"

fun cached_lists :: "rt_event list \<Rightarrow> cache_item list list" where
  "cached_lists [] = []"
| "cached_lists (RtCacheList items # tr) = items # cached_lists tr"
| "cached_lists (_ # tr) = cached_lists tr"

fun cached_ones :: "rt_event list \<Rightarrow> (string \<times> cache_item) list" where
  "cached_ones [] = []"
| "cached_ones (RtCacheOne s item # tr) = (s, item) # cached_ones tr"
| "cached_ones (_ # tr) = cached_ones tr"

text \<open>The samples of a batch that pass the gate.\<close>

definition accepted :: "rt_env \<Rightarrow> sample \<Rightarrow> bool" where
  "accepted env d \<longleftrightarrow> (case rt_quality_score env d of Raises \<Rightarrow> False | Returns q \<Rightarrow> q \<ge> 0.5)"

text \<open>
  A call that the first loop makes for a sample raises: the score, the status log,
  or the insert, which is called for an accepted sample only. A call that the pass
  makes on a batch raises: one of those, the cache call for the list, or the cache
  call for one sample.
\<close>

definition sample_raises :: "rt_env \<Rightarrow> sample \<Rightarrow> bool" where
  "sample_raises env d \<longleftrightarrow>
     rt_quality_score env d = Raises \<or> rt_log_data_status_raises env d
     \<or> (accepted env d \<and> rt_insert_current_price env d = Raises)"

definition rt_pass_raises :: "rt_env \<Rightarrow> sample list \<Rightarrow> bool" where
  "rt_pass_raises env ds \<longleftrightarrow>
     list_ex (sample_raises env) ds
     \<or> rt_cache_realtime_prices env = Raises
     \<or> list_ex (\<lambda>d. rt_cache_realtime_price env d = Raises) ds"

subsection \<open>\<open>DataProcessor.process_and_store_data\<close>\<close>

record hist_row =
  h_symbol :: string
  h_date :: int
  h_open :: real
  h_high :: real
  h_low :: real
  h_close :: real
  h_volume :: real
  h_quote_volume :: real

text \<open>
  The scraper answers with the pair \<open>(current_data, historical_data)\<close> or raises;
  \<open>historical_data\<close> is a dictionary from a timeframe to a frame of rows, \<open>None\<close> when
  the scraper gives none (then \<open>.items()\<close> raises).
\<close>

record dp_env =
  dp_connect :: "bool outcome"
  dp_scrape :: "(sample list option \<times> (string \<times> hist_row list) list option) outcome"
  dp_insert_current_price :: "sample \<Rightarrow> bool outcome"
  dp_insert_historical_data :: "string \<Rightarrow> hist_row \<Rightarrow> bool outcome"

datatype dp_event =
    DpConnect
  | DpScrape
  | DpInsert sample
  | DpLogStored sample
  | DpLogStoreFailed sample
  | DpInsertHist string hist_row
  | DpLogHistFailed string hist_row
  | DpLogError
  | DpDisconnect

fun store_current :: "dp_env \<Rightarrow> sample list \<Rightarrow> dp_event list \<times> bool" where
  "store_current env [] = ([], True)"
| "store_current env (d # ds) =
     (case dp_insert_current_price env d of
        Raises \<Rightarrow> ([DpInsert d], False)
      | Returns ok \<Rightarrow>
          (case store_current env ds of
             (evs, fine) \<Rightarrow>
               ([DpInsert d, if ok then DpLogStored d else DpLogStoreFailed d] @ evs, fine)))"

fun store_rows :: "dp_env \<Rightarrow> string \<Rightarrow> hist_row list \<Rightarrow> dp_event list \<times> bool" where
  "store_rows env timeframe [] = ([], True)"
| "store_rows env timeframe (row # rows) =
     (case dp_insert_historical_data env timeframe row of
        Raises \<Rightarrow> ([DpInsertHist timeframe row], False)
      | Returns ok \<Rightarrow>
          (case store_rows env timeframe rows of
             (evs, fine) \<Rightarrow>
               ((if ok then [DpInsertHist timeframe row]
                 else [DpInsertHist timeframe row, DpLogHistFailed timeframe row]) @ evs,
                fine)))"

fun store_historical :: "dp_env \<Rightarrow> (string \<times> hist_row list) list \<Rightarrow> dp_event list \<times> bool" where
  "store_historical env [] = ([], True)"
| "store_historical env ((timeframe, df) # rest) =
     (case store_rows env timeframe df of
        (evs, False) \<Rightarrow> (evs, False)
      | (evs, True) \<Rightarrow>
          (case store_historical env rest of (evs', fine) \<Rightarrow> (evs @ evs', fine)))"

definition process_and_store_data :: "dp_env \<Rightarrow> bool outcome \<times> dp_event list" where
  "process_and_store_data env =
     (case dp_connect env of
        Raises \<Rightarrow> (Raises, [DpConnect])
      | Returns False \<Rightarrow> (Returns False, [DpConnect, DpLogError])
      | Returns True \<Rightarrow>
          (case dp_scrape env of
             Raises \<Rightarrow> (Returns False, [DpConnect, DpScrape, DpLogError, DpDisconnect])
           | Returns (current_data, historical_data) \<Rightarrow>
               (case store_current env (case current_data of None \<Rightarrow> [] | Some ds \<Rightarrow> ds) of
                  (evs, False) \<Rightarrow>
                    (Returns False, [DpConnect, DpScrape] @ evs @ [DpLogError, DpDisconnect])
                | (evs, True) \<Rightarrow>
                    (case historical_data of
                       None \<Rightarrow>
                         (Returns False,
                          [DpConnect, DpScrape] @ evs @ [DpLogError, DpDisconnect])
                     | Some frames \<Rightarrow>
                         (case store_historical env frames of
                            (evs', False) \<Rightarrow>
                              (Returns False,
                               [DpConnect, DpScrape] @ evs @ evs' @ [DpLogError, DpDisconnect])
                          | (evs', True) \<Rightarrow>
                              (Returns True,
                               [DpConnect, DpScrape] @ evs @ evs' @ [DpDisconnect]))))))"

text \<open>An insert of the batch pass raises; the pass calls every insert of the batch.\<close>

definition dp_pass_raises :: "dp_env \<Rightarrow> sample list \<Rightarrow> (string \<times> hist_row list) list \<Rightarrow> bool" where
  "dp_pass_raises env ds frames \<longleftrightarrow>
     list_ex (\<lambda>d. dp_insert_current_price env d = Raises) ds
     \<or> list_ex (\<lambda>(timeframe, df).
                   list_ex (\<lambda>row. dp_insert_historical_data env timeframe row = Raises) df) frames"

text \<open>The samples of a scraper answer: none for \<open>None\<close>.\<close>

definition current_samples :: "sample list option \<Rightarrow> sample list" where
  "current_samples current_data = (case current_data of None \<Rightarrow> [] | Some ds \<Rightarrow> ds)"

section \<open>The scheduler of \<open>scheduler.py\<close>\<close>

subsection \<open>\<open>run_realtime_processor\<close>\<close>

text \<open>
  What happens in one round of the \<open>while True\<close> loop of \<open>run_realtime_processor\<close>:
  the pass returns and the loop sleeps, an exception is logged and the loop sleeps,
  or a \<open>KeyboardInterrupt\<close> breaks the loop.
\<close>

datatype round = Processed bool | Errored | Interrupted

text \<open>
  The loop has no other exit than the interrupt. The model returns the number of
  rounds completed; the Python function returns \<open>None\<close> after the \<open>break\<close>.
\<close>

partial_function (option) run_realtime_processor :: "(nat \<Rightarrow> round) \<Rightarrow> nat \<Rightarrow> nat option" where
  "run_realtime_processor rounds i =
     (if rounds i = Interrupted then Some i
      else run_realtime_processor rounds (Suc i))"

subsection \<open>The job handlers\<close>

datatype job = DataCollection | Realtime | Analysis | FullProcessing

text \<open>
  How the body of a handler ends when it ends: it returns a truth value, raises an
  \<open>Exception\<close>, or raises \<open>KeyboardInterrupt\<close> (which \<open>except Exception\<close> does not
  catch). A body that never returns is \<open>None\<close>.
\<close>

datatype body_result = Done bool | Error | Interrupt

text \<open>
  How a handler leaves: it returns, a \<open>KeyboardInterrupt\<close> leaves it, or it never
  returns. The log written up to that point is kept in each case.
\<close>

datatype task_exit = Normal | KeyboardInterrupt | NeverReturns

datatype sched_log =
    TaskStart job
  | TaskDone job
  | TaskFailed job
  | TaskException job
  | LoopStop

text \<open>
  What the handlers call: the rounds of the realtime loop and the outcomes of
  \<open>run_data_processing()\<close> and \<open>run_analysis()\<close>, for the collection job, the analysis
  job and the two steps of the full processing.
\<close>

record sched_env =
  realtime_rounds :: "nat \<Rightarrow> round"
  collection_result :: "body_result option"
  analysis_result :: "body_result option"
  full_data_result :: "body_result option"
  full_analysis_result :: "body_result option"

text \<open>
  The wrapper shared by \<open>run_realtime_task\<close>, \<open>run_data_collection_task\<close> and
  \<open>run_analysis_task\<close>: \<open>try: if body(): info else: error; except Exception: error\<close>.
\<close>

definition run_task :: "job \<Rightarrow> body_result option \<Rightarrow> sched_log list \<times> task_exit" where
  "run_task j body =
     (case body of
        None \<Rightarrow> ([TaskStart j], NeverReturns)
      | Some (Done True) \<Rightarrow> ([TaskStart j, TaskDone j], Normal)
      | Some (Done False) \<Rightarrow> ([TaskStart j, TaskFailed j], Normal)
      | Some Error \<Rightarrow> ([TaskStart j, TaskException j], Normal)
      | Some Interrupt \<Rightarrow> ([TaskStart j], KeyboardInterrupt))"

text \<open>
  \<open>CryptoScheduler.run_realtime_task\<close> calls \<open>run_realtime_processor()\<close>, the endless
  loop, which catches every exception and the interrupt itself; when it returns, its
  value \<open>None\<close> is falsy.
\<close>

definition run_realtime_task :: "sched_env \<Rightarrow> sched_log list \<times> task_exit" where
  "run_realtime_task env =
     run_task Realtime
       (map_option (\<lambda>_. Done False) (run_realtime_processor (realtime_rounds env) 0))"

definition run_data_collection_task :: "sched_env \<Rightarrow> sched_log list \<times> task_exit" where
  "run_data_collection_task env = run_task DataCollection (collection_result env)"

definition run_analysis_task :: "sched_env \<Rightarrow> sched_log list \<times> task_exit" where
  "run_analysis_task env = run_task Analysis (analysis_result env)"

text \<open>\<open>run_full_processing\<close>: two steps in one \<open>try\<close>.\<close>

definition step_log :: "bool \<Rightarrow> sched_log" where
  "step_log ok = (if ok then TaskDone FullProcessing else TaskFailed FullProcessing)"

definition run_full_processing :: "sched_env \<Rightarrow> sched_log list \<times> task_exit" where
  "run_full_processing env =
     (case full_data_result env of
        None \<Rightarrow> ([TaskStart FullProcessing], NeverReturns)
      | Some Error \<Rightarrow> ([TaskStart FullProcessing, TaskException FullProcessing], Normal)
      | Some Interrupt \<Rightarrow> ([TaskStart FullProcessing], KeyboardInterrupt)
      | Some (Done ok) \<Rightarrow>
          (case full_analysis_result env of
             None \<Rightarrow> ([TaskStart FullProcessing, step_log ok], NeverReturns)
           | Some Error \<Rightarrow>
               ([TaskStart FullProcessing, step_log ok, TaskException FullProcessing], Normal)
           | Some Interrupt \<Rightarrow>
               ([TaskStart FullProcessing, step_log ok], KeyboardInterrupt)
           | Some (Done ok') \<Rightarrow>
               ([TaskStart FullProcessing, step_log ok, step_log ok'], Normal)))"

fun run_job :: "sched_env \<Rightarrow> job \<Rightarrow> sched_log list \<times> task_exit" where
  "run_job env DataCollection = run_data_collection_task env"
| "run_job env Realtime = run_realtime_task env"
| "run_job env Analysis = run_analysis_task env"
| "run_job env FullProcessing = run_full_processing env"

subsection \<open>\<open>CryptoScheduler.run\<close>\<close>

text \<open>
  \<open>setup_schedule\<close> and the loop use the global name \<open>schedule\<close>. Whether the module
  binds that name is an argument of the model: \<open>scheduler.py\<close> imports \<open>datetime\<close>,
  \<open>time\<close>, \<open>signal\<close>, \<open>sys\<close> and names of the repository's own modules, and has no
  import of \<open>schedule\<close>, so its first use raises \<open>NameError\<close>. (\<open>main.py\<close>, whose
  handlers have the same text and whose loop differs in the length of the sleep
  only, imports it.)
\<close>

definition scheduler_py_binds_schedule :: bool where
  "scheduler_py_binds_schedule = False"

definition setup_schedule :: "bool \<Rightarrow> unit outcome" where
  "setup_schedule schedule_bound = (if schedule_bound then Returns () else Raises)"

text \<open>
  \<open>schedule.run_pending()\<close>, when the name is bound to the library, calls the handlers
  of the due jobs one after the other in the calling thread; which jobs are due, and
  in which order, is the library's decision and a parameter here. A handler that
  does not return keeps the call from returning; an interrupt that leaves a handler
  leaves the call.
\<close>

fun run_pending :: "sched_env \<Rightarrow> job list \<Rightarrow> sched_log list \<times> task_exit" where
  "run_pending env [] = ([], Normal)"
| "run_pending env (j # js) =
     (case run_job env j of
        (l, NeverReturns) \<Rightarrow> (l, NeverReturns)
      | (l, KeyboardInterrupt) \<Rightarrow> (l, KeyboardInterrupt)
      | (l, Normal) \<Rightarrow> (case run_pending env js of (l', e) \<Rightarrow> (l @ l', e)))"

text \<open>How \<open>run\<close> stands after the rounds it is given.\<close>

datatype run_exit =
    RaisedNameError
  | RaisedKeyboardInterrupt
  | Blocked
  | LoopStopped
  | LoopRunning

text \<open>
  The \<open>while self.is_running\<close> loop, for a list of rounds; each round has the outcomes
  of that round and the jobs due in it. The \<open>except KeyboardInterrupt\<close> of the loop
  stops it.
\<close>

fun dispatch_loop :: "(sched_env \<times> job list) list \<Rightarrow> sched_log list \<times> run_exit" where
  "dispatch_loop [] = ([], LoopRunning)"
| "dispatch_loop ((env, due) # rounds) =
     (case run_pending env due of
        (l, NeverReturns) \<Rightarrow> (l, Blocked)
      | (l, KeyboardInterrupt) \<Rightarrow> (l @ [LoopStop], LoopStopped)
      | (l, Normal) \<Rightarrow> (case dispatch_loop rounds of (l', e) \<Rightarrow> (l @ l', e)))"

text \<open>
  \<open>run\<close>: \<open>setup_schedule()\<close>, one call of \<open>run_data_collection_task()\<close> outside any
  \<open>try\<close>, then the loop.
\<close>

definition run ::
  "bool \<Rightarrow> sched_env \<Rightarrow> (sched_env \<times> job list) list \<Rightarrow> sched_log list \<times> run_exit" where
  "run schedule_bound first rounds =
     (case setup_schedule schedule_bound of
        Raises \<Rightarrow> ([], RaisedNameError)
      | Returns _ \<Rightarrow>
          (case run_data_collection_task first of
             (l, NeverReturns) \<Rightarrow> (l, Blocked)
           | (l, KeyboardInterrupt) \<Rightarrow> (l, RaisedKeyboardInterrupt)
           | (l, Normal) \<Rightarrow> (case dispatch_loop rounds of (l', e) \<Rightarrow> (l @ l', e))))"

fun started :: "sched_log list \<Rightarrow> job list" where
  "started [] = []"
| "started (TaskStart j # l) = j # started l"
| "started (_ # l) = started l"

text \<open>
  The body of a job's handler ends without an interrupt: it returns or raises an
  \<open>Exception\<close>. The body of the realtime handler is the endless loop, which ends only
  when it is interrupted.
\<close>

fun body_ends :: "sched_env \<Rightarrow> job \<Rightarrow> bool" where
  "body_ends env DataCollection =
     (collection_result env \<noteq> None \<and> collection_result env \<noteq> Some Interrupt)"
| "body_ends env Realtime = (run_realtime_processor (realtime_rounds env) 0 \<noteq> None)"
| "body_ends env Analysis =
     (analysis_result env \<noteq> None \<and> analysis_result env \<noteq> Some Interrupt)"
| "body_ends env FullProcessing =
     (full_data_result env = Some Error
      \<or> ((\<exists>ok. full_data_result env = Some (Done ok))
          \<and> full_analysis_result env \<noteq> None \<and> full_analysis_result env \<noteq> Some Interrupt))"

text \<open>A realtime loop that is never interrupted, and a scheduler whose other jobs succeed.\<close>

definition never_interrupted :: "nat \<Rightarrow> round" where
  "never_interrupted i = Processed True"

definition busy_env :: sched_env where
  "busy_env =
     \<lparr>realtime_rounds = never_interrupted,
      collection_result = Some (Done True),
      analysis_result = Some (Done True),
      full_data_result = Some (Done True),
      full_analysis_result = Some (Done True)\<rparr>"

section \<open>Reference views and example inputs\<close>

subsection \<open>The read path\<close>

text \<open>What the store alone determines as the latest prices.\<close>

definition latest_from_store :: "web_env \<Rightarrow> price_view list" where
  "latest_from_store env =
     (case db_get_connection env of
        Returns True \<Rightarrow>
          (case db_get_latest_prices env of
             Returns (Some data) \<Rightarrow> map (price_entry env) data
           | _ \<Rightarrow> [])
      | _ \<Rightarrow> [])"

text \<open>The cache store cannot be reached: there is no manager, or its read raises.\<close>

definition cache_unreachable :: "web_env \<Rightarrow> bool" where
  "cache_unreachable env \<longleftrightarrow>
     (case redis_manager env of
        None \<Rightarrow> True
      | Some cm \<Rightarrow> cm_get_latest_prices cm = Raises)"

definition store_unavailable :: "web_env \<Rightarrow> bool" where
  "store_unavailable env \<longleftrightarrow>
     db_get_connection env = Raises \<or> db_get_connection env = Returns False"

text \<open>A cache read that is not a hit: an exception, \<open>None\<close>, or an empty list.\<close>

definition latest_miss :: "cache_manager \<Rightarrow> bool" where
  "latest_miss cm \<longleftrightarrow>
     cm_get_latest_prices cm = Raises \<or> cm_get_latest_prices cm = Returns None
     \<or> cm_get_latest_prices cm = Returns (Some [])"

definition chart_miss :: "'d chart_cache \<Rightarrow> string \<Rightarrow> string \<Rightarrow> bool" where
  "chart_miss cm s timeframe \<longleftrightarrow>
     cc_get_chart_data cm s timeframe = Raises \<or> cc_get_chart_data cm s timeframe = Returns None
     \<or> cc_get_chart_data cm s timeframe = Returns (Some [])"

text \<open>
  A store with two hours of BTC and one of ETH; at \<open>now = 90000\<close> only the rows dated
  1000 are a day old.
\<close>

definition btc_day_old :: hour_row where
  "btc_day_old = \<lparr>hr_symbol = ''BTC'', hr_date = 1000, hr_close = Some 100\<rparr>"

definition demo_hours :: "hour_row list" where
  "demo_hours =
     [btc_day_old,
      \<lparr>hr_symbol = ''BTC'', hr_date = 5000, hr_close = Some 120\<rparr>,
      \<lparr>hr_symbol = ''ETH'', hr_date = 1000, hr_close = Some 0\<rparr>]"

definition btc_row :: price_row where
  "btc_row = \<lparr>row_name = ''Bitcoin'', row_symbol = ''BTC'', row_price = 110,
              row_api_change_24h = Some 5, row_timestamp = ''2024-01-02 00:00:00''\<rparr>"

definition eth_row :: price_row where
  "eth_row = \<lparr>row_name = ''Ethereum'', row_symbol = ''ETH'', row_price = 50,
              row_api_change_24h = None, row_timestamp = ''2024-01-02 00:00:00''\<rparr>"

definition btc_view :: price_view where
  "btc_view = \<lparr>pv_name = ''Bitcoin'', pv_symbol = ''BTC'', pv_price = 110,
               pv_change_24h = 10, pv_timestamp = ''2024-01-02 00:00:00''\<rparr>"

definition eth_view :: price_view where
  "eth_view = \<lparr>pv_name = ''Ethereum'', pv_symbol = ''ETH'', pv_price = 50,
               pv_change_24h = 0, pv_timestamp = ''2024-01-02 00:00:00''\<rparr>"

definition no_cache_env :: web_env where
  "no_cache_env =
     \<lparr>redis_manager = None,
      db_get_connection = Returns True,
      db_get_latest_prices = Returns (Some [btc_row, eth_row]),
      hour_data = demo_hours,
      hour_query_raises = (\<lambda>s. False),
      now = 90000\<rparr>"

definition raising_cache :: cache_manager where
  "raising_cache = \<lparr>cm_get_latest_prices = Raises, cm_cache_latest_prices_raises = True\<rparr>"

definition missing_cache :: cache_manager where
  "missing_cache = \<lparr>cm_get_latest_prices = Returns None, cm_cache_latest_prices_raises = False\<rparr>"

definition warm_cache :: cache_manager where
  "warm_cache =
     \<lparr>cm_get_latest_prices = Returns (Some [btc_view]), cm_cache_latest_prices_raises = False\<rparr>"

definition degraded_env :: web_env where
  "degraded_env = no_cache_env\<lparr>redis_manager := Some raising_cache\<rparr>"

definition outage_env :: web_env where
  "outage_env = no_cache_env\<lparr>redis_manager := Some raising_cache, db_get_connection := Raises\<rparr>"

definition miss_env :: web_env where
  "miss_env = no_cache_env\<lparr>redis_manager := Some missing_cache\<rparr>"

definition hit_env :: web_env where
  "hit_env = no_cache_env\<lparr>redis_manager := Some warm_cache\<rparr>"

definition empty_store_env :: web_env where
  "empty_store_env = no_cache_env\<lparr>redis_manager := Some missing_cache,
                                  db_get_latest_prices := Returns (Some [])\<rparr>"

text \<open>
  The store holds a reference for a symbol: the hour query does not raise and \<open>r\<close> is
  the row of the symbol dated at or before \<open>now - 24h\<close> that is later than every
  other such row. It holds none: the query raises, no such row exists, or the close
  of that row is NULL or zero.
\<close>

definition reference_row :: "web_env \<Rightarrow> string \<Rightarrow> hour_row \<Rightarrow> bool" where
  "reference_row env s r \<longleftrightarrow>
     \<not> hour_query_raises env s \<and> r \<in> set (hour_data env) \<and> at_or_before_24h (now env) s r
     \<and> (\<forall>r' \<in> set (hour_data env).
           at_or_before_24h (now env) s r' \<longrightarrow> r' = r \<or> hr_date r' < hr_date r)"

definition no_reference :: "web_env \<Rightarrow> string \<Rightarrow> bool" where
  "no_reference env s \<longleftrightarrow>
     hour_query_raises env s
     \<or> \<not> (\<exists>r \<in> set (hour_data env). at_or_before_24h (now env) s r)
     \<or> (\<exists>r. reference_row env s r \<and> (hr_close r = None \<or> hr_close r = Some 0))"

text \<open>
  Three rows behind a cache that misses: BTC with a reference close of 100, ETH whose
  reference close is zero and whose API value is \<open>None\<close>, SOL with no hour row and an
  API value of 3.
\<close>

definition eth_day_old :: hour_row where
  "eth_day_old = \<lparr>hr_symbol = ''ETH'', hr_date = 1000, hr_close = Some 0\<rparr>"

definition sol_row :: price_row where
  "sol_row = \<lparr>row_name = ''Solana'', row_symbol = ''SOL'', row_price = 20,
              row_api_change_24h = Some 3, row_timestamp = ''2024-01-02 00:00:00''\<rparr>"

definition sol_view :: price_view where
  "sol_view = \<lparr>pv_name = ''Solana'', pv_symbol = ''SOL'', pv_price = 20,
               pv_change_24h = 3, pv_timestamp = ''2024-01-02 00:00:00''\<rparr>"

definition three_row_env :: web_env where
  "three_row_env =
     miss_env\<lparr>db_get_latest_prices := Returns (Some [btc_row, eth_row, sol_row])\<rparr>"

text \<open>A chart store with one hourly BTC row, behind a cold cache, a warm one, or a failing query.\<close>

definition btc_chart_row :: "string chart_row" where
  "btc_chart_row =
     \<lparr>cr_date = ''2024-01-01 00:00:00'', cr_timestamp_ms = Some 1704067200000,
      cr_open = 100, cr_high = 110, cr_low = 95, cr_close = 105, cr_volume = 12\<rparr>"

definition btc_chart_item :: "string chart_item" where
  "btc_chart_item =
     \<lparr>ci_symbol = ''BTC'', ci_date = ''2024-01-01 00:00:00'',
      ci_timestamp_ms = Some 1704067200000,
      ci_open = 100, ci_high = 110, ci_low = 95, ci_close = 105, ci_volume = 12\<rparr>"

definition cold_chart_cache :: "string chart_cache" where
  "cold_chart_cache =
     \<lparr>cc_get_chart_data = (\<lambda>s timeframe. Returns None), cc_cache_chart_data_raises = False\<rparr>"

definition warm_chart_cache :: "string chart_cache" where
  "warm_chart_cache =
     \<lparr>cc_get_chart_data = (\<lambda>s timeframe. Returns (Some [btc_chart_item])),
      cc_cache_chart_data_raises = False\<rparr>"

definition chart_miss_env :: "string chart_env" where
  "chart_miss_env =
     \<lparr>ce_redis_manager = Some cold_chart_cache,
      ce_db_connect = Returns True,
      ce_db_get_chart_data = (\<lambda>s timeframe. Returns (Some [btc_chart_row]))\<rparr>"

definition chart_hit_env :: "string chart_env" where
  "chart_hit_env = chart_miss_env\<lparr>ce_redis_manager := Some warm_chart_cache\<rparr>"

definition failing_query_env :: "string chart_env" where
  "failing_query_env = chart_miss_env\<lparr>ce_db_get_chart_data := (\<lambda>s timeframe. Raises)\<rparr>"

text \<open>A cache manager whose three clearing calls each report three keys.\<close>

definition ready_manager :: clearing_manager where
  "ready_manager =
     \<lparr>clear_price_cache = Returns 3, clear_chart_cache = Returns 3, clear_all_cache = Returns 3\<rparr>"

subsection \<open>The ingestion passes\<close>

text \<open>A batch of a fresh BTC sample (score 0.9) and a stale ETH sample (score 0.2).\<close>

definition fresh_btc :: sample where
  "fresh_btc = \<lparr>s_name = ''Bitcoin'', s_symbol = ''BTC'', s_price = 65000,
                s_change_24h = Some 1, s_timestamp = 89990\<rparr>"

definition stale_eth :: sample where
  "stale_eth = \<lparr>s_name = ''Ethereum'', s_symbol = ''ETH'', s_price = 3000,
                s_change_24h = Some 2, s_timestamp = 80000\<rparr>"

definition batch_env :: rt_env where
  "batch_env =
     \<lparr>rt_connect = Returns True,
      rt_scrape = Returns (Some [fresh_btc, stale_eth]),
      rt_quality_score = (\<lambda>d. Returns (if s_symbol d = ''BTC'' then 0.9 else 0.2)),
      rt_log_data_status_raises = (\<lambda>d. False),
      rt_insert_current_price = (\<lambda>d. Returns False),
      rt_cache_realtime_prices = Returns True,
      rt_cache_realtime_price = (\<lambda>d. Returns True),
      rt_current_time = 90000\<rparr>"

definition store_down_env :: rt_env where
  "store_down_env = batch_env\<lparr>rt_connect := Returns False\<rparr>"

definition hour_frame_row :: hist_row where
  "hour_frame_row = \<lparr>h_symbol = ''BTC'', h_date = 86400, h_open = 100, h_high = 110,
                     h_low = 95, h_close = 105, h_volume = 12, h_quote_volume = 1200\<rparr>"

definition dp_batch_env :: dp_env where
  "dp_batch_env =
     \<lparr>dp_connect = Returns True,
      dp_scrape = Returns (Some [fresh_btc], Some [(''hour'', [hour_frame_row])]),
      dp_insert_current_price = (\<lambda>d. Returns False),
      dp_insert_historical_data = (\<lambda>timeframe row. Returns False)\<rparr>"

text \<open>
  The same batch with an insert that would raise for ETH (which the gate rejects, so
  the insert is not called), and with an insert that raises for every sample.
\<close>

definition picky_env :: rt_env where
  "picky_env =
     batch_env\<lparr>rt_insert_current_price :=
                 (\<lambda>d. if s_symbol d = ''ETH'' then Raises else Returns False)\<rparr>"

definition raising_insert_env :: rt_env where
  "raising_insert_env = batch_env\<lparr>rt_insert_current_price := (\<lambda>d. Raises)\<rparr>"

subsection \<open>Chart curves\<close>

text \<open>
  The items of the input whose symbol matches, the closes of the \<open>w\<close> items from
  position \<open>k\<close> on (the trailing window of the item at position \<open>k + w - 1\<close>), and the
  mean and the population standard deviation of a list of prices.
\<close>

definition matching :: "'d chart_item list \<Rightarrow> string \<Rightarrow> 'd chart_item list" where
  "matching data symbol = filter (\<lambda>item. ci_symbol item = symbol) data"

definition trailing_closes :: "'d chart_item list \<Rightarrow> nat \<Rightarrow> nat \<Rightarrow> real list" where
  "trailing_closes sorted_data w k = map ci_close (take w (drop k sorted_data))"

definition arithmetic_mean :: "real list \<Rightarrow> real" where
  "arithmetic_mean ps = (\<Sum>p\<leftarrow>ps. p) / real (length ps)"

definition population_sd :: "real list \<Rightarrow> real" where
  "population_sd ps = sqrt ((\<Sum>p\<leftarrow>ps. (p - arithmetic_mean ps) ^ 2) / real (length ps))"

definition chart_point :: "string \<Rightarrow> nat \<Rightarrow> real \<Rightarrow> nat chart_item" where
  "chart_point s d c =
     \<lparr>ci_symbol = s, ci_date = d, ci_timestamp_ms = None,
      ci_open = c, ci_high = c, ci_low = c, ci_close = c, ci_volume = 1\<rparr>"

definition demo_items :: "nat chart_item list" where
  "demo_items = [chart_point ''BTC'' 2 12, chart_point ''ETH'' 1 50, chart_point ''BTC'' 1 10]"

section \<open>The 24h change\<close>

lemma latest_row_None: "latest_row rs = None \<longleftrightarrow> rs = []"
  by (induction rs) (auto split: option.splits)

lemma latest_row_in_set: "latest_row rs = Some r \<Longrightarrow> r \<in> set rs"
  by (induction rs arbitrary: r) (auto split: option.splits if_splits)

lemma latest_row_unique:
  "r \<in> set rs \<Longrightarrow> \<forall>r' \<in> set rs. r' = r \<or> hr_date r' < hr_date r \<Longrightarrow> latest_row rs = Some r"
proof (induction rs)
  case Nil
  then show ?case by simp
next
  case (Cons a rs)
  show ?case
  proof (cases "r \<in> set rs")
    case True
    with Cons have ih: "latest_row rs = Some r" by simp
    from Cons.prems have "a = r \<or> hr_date a < hr_date r" by simp
    with ih show ?thesis by auto
  next
    case False
    with Cons.prems have ar: "a = r" by simp
    show ?thesis
    proof (cases "latest_row rs")
      case None
      with ar show ?thesis by simp
    next
      case (Some r')
      then have "r' \<in> set rs" by (rule latest_row_in_set)
      with Cons.prems False have "hr_date r' < hr_date r" by auto
      with Some ar show ?thesis by simp
    qed
  qed
qed

text \<open>
  C1. The change \<open>get_latest_prices\<close> reports for a symbol: \<open>calculate_24h_change\<close>
  gives \<open>None\<close> exactly when the hour query raises, no row of the symbol is dated at or
  before \<open>now - 24h\<close>, or the close it finds is NULL or zero, and then the fallback
  (the API value, or 0.0 without one) is reported, no exception reaching the caller;
  when the latest such row \<open>r\<close> has a close \<open>ref\<close> that is not zero, the reported change
  is \<open>(current - ref) / ref * 100\<close>.
\<close>

theorem recompute_change_cases:
  "(calculate_24h_change env s cur = None \<longleftrightarrow>
      hour_query_raises env s
      \<or> \<not> (\<exists>r \<in> set (hour_data env). at_or_before_24h (now env) s r)
      \<or> query_24h_ago (hour_data env) (now env) s = Row None
      \<or> query_24h_ago (hour_data env) (now env) s = Row (Some 0))
   \<and> (calculate_24h_change env s cur = None \<longrightarrow>
        pick_change_24h (calculate_24h_change env s cur) api
          = (case api of Some a \<Rightarrow> a | None \<Rightarrow> 0))
   \<and> (\<not> hour_query_raises env s \<and> r \<in> set (hour_data env) \<and> at_or_before_24h (now env) s r
        \<and> (\<forall>r' \<in> set (hour_data env).
              at_or_before_24h (now env) s r' \<longrightarrow> r' = r \<or> hr_date r' < hr_date r)
        \<and> hr_close r = Some ref \<and> ref \<noteq> 0 \<longrightarrow>
        pick_change_24h (calculate_24h_change env s cur) api = (cur - ref) / ref * 100)"
proof (intro conjI impI)
  have "latest_row (filter (at_or_before_24h (now env) s) (hour_data env)) = None
          \<longleftrightarrow> \<not> (\<exists>r \<in> set (hour_data env). at_or_before_24h (now env) s r)"
    by (simp add: latest_row_None filter_empty_conv)
  then show "calculate_24h_change env s cur = None \<longleftrightarrow>
      hour_query_raises env s
      \<or> \<not> (\<exists>r \<in> set (hour_data env). at_or_before_24h (now env) s r)
      \<or> query_24h_ago (hour_data env) (now env) s = Row None
      \<or> query_24h_ago (hour_data env) (now env) s = Row (Some 0)"
    by (auto simp: calculate_24h_change_def query_24h_ago_def split: option.splits fetched.splits)
next
  assume "calculate_24h_change env s cur = None"
  then show "pick_change_24h (calculate_24h_change env s cur) api
          = (case api of Some a \<Rightarrow> a | None \<Rightarrow> 0)"
    by (simp add: pick_change_24h_def)
next
  assume a: "\<not> hour_query_raises env s \<and> r \<in> set (hour_data env) \<and> at_or_before_24h (now env) s r
        \<and> (\<forall>r' \<in> set (hour_data env).
              at_or_before_24h (now env) s r' \<longrightarrow> r' = r \<or> hr_date r' < hr_date r)
        \<and> hr_close r = Some ref \<and> ref \<noteq> 0"
  have "latest_row (filter (at_or_before_24h (now env) s) (hour_data env)) = Some r"
    by (rule latest_row_unique) (use a in auto)
  with a show "pick_change_24h (calculate_24h_change env s cur) api = (cur - ref) / ref * 100"
    by (simp add: calculate_24h_change_def query_24h_ago_def pick_change_24h_def)
qed

lemmas demo_defs =
  no_cache_env_def demo_hours_def btc_day_old_def btc_row_def eth_row_def
  btc_view_def eth_view_def at_or_before_24h_def

theorem recompute_change_cases_witness:
  "\<not> hour_query_raises no_cache_env ''BTC'' \<and> btc_day_old \<in> set (hour_data no_cache_env)
   \<and> at_or_before_24h (now no_cache_env) ''BTC'' btc_day_old
   \<and> hr_close btc_day_old = Some 100
   \<and> pick_change_24h (calculate_24h_change no_cache_env ''BTC'' 110) (Some 5) = 10
   \<and> calculate_24h_change no_cache_env ''ETH'' 50 = None
   \<and> pick_change_24h (calculate_24h_change no_cache_env ''ETH'' 50) (Some 2) = 2"
proof -
  have h: "\<not> hour_query_raises no_cache_env ''BTC'' \<and> btc_day_old \<in> set (hour_data no_cache_env)
        \<and> at_or_before_24h (now no_cache_env) ''BTC'' btc_day_old
        \<and> (\<forall>r' \<in> set (hour_data no_cache_env).
              at_or_before_24h (now no_cache_env) ''BTC'' r' \<longrightarrow>
              r' = btc_day_old \<or> hr_date r' < hr_date btc_day_old)
        \<and> hr_close btc_day_old = Some 100 \<and> (100::real) \<noteq> 0"
    by (simp add: demo_defs)
  have z: "query_24h_ago (hour_data no_cache_env) (now no_cache_env) ''ETH'' = Row (Some 0)"
    by (simp add: demo_defs query_24h_ago_def)
  from h recompute_change_cases
         [where env = no_cache_env and s = "''BTC''" and cur = 110 and api = "Some 5"
            and r = btc_day_old and ref = 100]
  have b: "pick_change_24h (calculate_24h_change no_cache_env ''BTC'' 110) (Some 5) = 10"
    by simp
  from z recompute_change_cases
         [where env = no_cache_env and s = "''ETH''" and cur = 50 and api = "Some 2"
            and r = btc_day_old and ref = 100]
  have e: "calculate_24h_change no_cache_env ''ETH'' 50 = None
           \<and> pick_change_24h (calculate_24h_change no_cache_env ''ETH'' 50) (Some 2) = 2"
    by simp
  from h b e show ?thesis by blast
qed

section \<open>The read path\<close>

lemma fst_stored_latest_prices: "fst (stored_latest_prices env) = latest_from_store env"
  by (auto simp: stored_latest_prices_def latest_from_store_def Let_def
           split: outcome.splits bool.splits option.splits)

lemma cached_unreachable: "cache_unreachable env \<Longrightarrow> fst (cached_latest_prices env) = None"
  by (auto simp: cache_unreachable_def cached_latest_prices_def split: option.splits)

lemma get_latest_prices_on_miss:
  "fst (cached_latest_prices env) = None \<Longrightarrow>
     get_latest_prices env =
       (fst (stored_latest_prices env),
        snd (cached_latest_prices env) @ snd (stored_latest_prices env))"
  by (cases "cached_latest_prices env"; cases "stored_latest_prices env")
     (auto simp: get_latest_prices_def)

lemmas read_defs =
  get_latest_prices_def cached_latest_prices_def stored_latest_prices_def
  price_entry_def pick_change_24h_def calculate_24h_change_def query_24h_ago_def
  latest_from_store_def Let_def

lemmas env_defs =
  degraded_env_def outage_env_def miss_env_def hit_env_def empty_store_env_def
  raising_cache_def missing_cache_def warm_cache_def

text \<open>
  C6. With the cache store unreachable (no manager, or a manager whose read raises,
  whatever its write does) \<open>get_latest_prices\<close> returns what the store alone
  determines; when the store cannot be reached either, it returns the empty list.
  Every exception of the path is a branch of \<open>get_latest_prices\<close>, which has a value
  for every environment.
\<close>

theorem degraded_cache_reads_store:
  "(cache_unreachable env \<longrightarrow> fst (get_latest_prices env) = latest_from_store env)
   \<and> (cache_unreachable env \<and> store_unavailable env \<longrightarrow> fst (get_latest_prices env) = [])"
proof -
  have a: "fst (get_latest_prices env) = latest_from_store env" if "cache_unreachable env"
    using that by (simp add: get_latest_prices_on_miss cached_unreachable fst_stored_latest_prices)
  have b: "latest_from_store env = []" if "store_unavailable env"
    using that by (auto simp: store_unavailable_def latest_from_store_def)
  from a b show ?thesis by simp
qed

theorem degraded_cache_reads_store_witness:
  "cache_unreachable no_cache_env \<and> fst (get_latest_prices no_cache_env) = [btc_view, eth_view]
   \<and> cache_unreachable degraded_env \<and> fst (get_latest_prices degraded_env) = [btc_view, eth_view]
   \<and> cache_unreachable outage_env \<and> store_unavailable outage_env
   \<and> fst (get_latest_prices outage_env) = []"
proof -
  have u: "cache_unreachable no_cache_env" "cache_unreachable degraded_env"
    "cache_unreachable outage_env" "store_unavailable outage_env"
    by (simp_all add: cache_unreachable_def store_unavailable_def env_defs demo_defs)
  have s: "latest_from_store no_cache_env = [btc_view, eth_view]"
    "latest_from_store degraded_env = [btc_view, eth_view]"
    by (simp_all add: read_defs env_defs demo_defs)
  from u s degraded_cache_reads_store [of no_cache_env]
    degraded_cache_reads_store [of degraded_env] degraded_cache_reads_store [of outage_env]
  show ?thesis by metis
qed

lemma calculate_with_reference:
  assumes "reference_row env s r" "hr_close r = Some ref" "ref \<noteq> 0"
  shows "calculate_24h_change env s cur = Some ((cur - ref) / ref * 100)"
proof -
  have "latest_row (filter (at_or_before_24h (now env) s) (hour_data env)) = Some r"
    by (rule latest_row_unique) (use assms(1) in \<open>auto simp: reference_row_def\<close>)
  with assms show ?thesis
    by (simp add: calculate_24h_change_def query_24h_ago_def reference_row_def)
qed

lemma calculate_without_reference:
  assumes "no_reference env s"
  shows "calculate_24h_change env s cur = None"
proof -
  consider (raises) "hour_query_raises env s"
    | (none) "\<not> (\<exists>r \<in> set (hour_data env). at_or_before_24h (now env) s r)"
    | (void) r where "reference_row env s r" "hr_close r = None \<or> hr_close r = Some 0"
    using assms by (auto simp: no_reference_def)
  then show ?thesis
  proof cases
    case raises
    then show ?thesis by (simp add: calculate_24h_change_def)
  next
    case none
    then have "filter (at_or_before_24h (now env) s) (hour_data env) = []"
      by (simp add: filter_empty_conv)
    then show ?thesis by (simp add: calculate_24h_change_def query_24h_ago_def)
  next
    case void
    have "latest_row (filter (at_or_before_24h (now env) s) (hour_data env)) = Some r"
      by (rule latest_row_unique) (use void(1) in \<open>auto simp: reference_row_def\<close>)
    with void(2) show ?thesis
      by (auto simp: calculate_24h_change_def query_24h_ago_def)
  qed
qed

text \<open>
  C10. On the store path of \<open>get_latest_prices\<close> (no cache hit) every returned entry
  comes from a row of the store and carries a number as \<open>change_24h\<close>: when the store
  holds a reference row for the symbol whose close is not zero, the change recomputed
  from that close; when it holds none (the query raises, no row is a day old, or the
  close is NULL or zero), the row's API value when that is not \<open>None\<close>, and 0
  otherwise.
\<close>

theorem db_path_change_24h:
  assumes "fst (cached_latest_prices env) = None"
    and "e \<in> set (fst (get_latest_prices env))"
  shows "\<exists>data item. db_get_latest_prices env = Returns (Some data) \<and> item \<in> set data
           \<and> pv_symbol e = row_symbol item \<and> pv_price e = row_price item
           \<and> (\<forall>r ref. reference_row env (row_symbol item) r \<and> hr_close r = Some ref
                  \<and> ref \<noteq> 0 \<longrightarrow>
                pv_change_24h e = (row_price item - ref) / ref * 100)
           \<and> (no_reference env (row_symbol item) \<longrightarrow>
                pv_change_24h e = (case row_api_change_24h item of Some a \<Rightarrow> a | None \<Rightarrow> 0))
           \<and> pv_change_24h e =
               (case calculate_24h_change env (row_symbol item) (row_price item) of
                  Some c \<Rightarrow> c
                | None \<Rightarrow> (case row_api_change_24h item of Some a \<Rightarrow> a | None \<Rightarrow> 0))"
proof -
  from assms have "e \<in> set (latest_from_store env)"
    by (simp add: get_latest_prices_on_miss fst_stored_latest_prices)
  then have "\<exists>data. db_get_latest_prices env = Returns (Some data)
                 \<and> e \<in> set (map (price_entry env) data)"
    by (cases "db_get_connection env"; cases "db_get_latest_prices env")
       (auto simp: latest_from_store_def split: bool.splits option.splits)
  then obtain data where d: "db_get_latest_prices env = Returns (Some data)"
    and e: "e \<in> set (map (price_entry env) data)"
    by blast
  from e obtain item where i: "item \<in> set data" "e = price_entry env item" by auto
  have c: "pv_change_24h e =
               (case calculate_24h_change env (row_symbol item) (row_price item) of
                  Some c \<Rightarrow> c
                | None \<Rightarrow> (case row_api_change_24h item of Some a \<Rightarrow> a | None \<Rightarrow> 0))"
    and f: "pv_symbol e = row_symbol item" "pv_price e = row_price item"
    using i(2) by (simp_all add: price_entry_def pick_change_24h_def Let_def)
  have a: "\<forall>r ref. reference_row env (row_symbol item) r \<and> hr_close r = Some ref
                  \<and> ref \<noteq> 0 \<longrightarrow>
                pv_change_24h e = (row_price item - ref) / ref * 100"
    using c by (auto simp: calculate_with_reference)
  have b: "no_reference env (row_symbol item) \<longrightarrow>
                pv_change_24h e = (case row_api_change_24h item of Some a \<Rightarrow> a | None \<Rightarrow> 0)"
    using c by (auto simp: calculate_without_reference)
  from d i(1) f a b c show ?thesis by blast
qed

lemmas three_row_defs =
  three_row_env_def sol_row_def sol_view_def eth_day_old_def reference_row_def

theorem db_path_change_24h_witness:
  "fst (cached_latest_prices three_row_env) = None
   \<and> btc_view \<in> set (fst (get_latest_prices three_row_env))
   \<and> eth_view \<in> set (fst (get_latest_prices three_row_env))
   \<and> sol_view \<in> set (fst (get_latest_prices three_row_env))
   \<and> fst (get_latest_prices three_row_env) = [btc_view, eth_view, sol_view]
   \<and> hr_close btc_day_old = Some 100
   \<and> pv_change_24h btc_view = (row_price btc_row - 100) / 100 * 100
   \<and> row_api_change_24h eth_row = None \<and> pv_change_24h eth_view = 0
   \<and> row_api_change_24h sol_row = Some 3 \<and> pv_change_24h sol_view = 3"
proof -
  have h1: "fst (cached_latest_prices three_row_env) = None"
    by (simp add: cached_latest_prices_def three_row_defs env_defs demo_defs)
  have h2: "fst (get_latest_prices three_row_env) = [btc_view, eth_view, sol_view]"
    by (simp add: read_defs three_row_defs env_defs demo_defs)
  have m: "btc_view \<in> set (fst (get_latest_prices three_row_env))"
    "eth_view \<in> set (fst (get_latest_prices three_row_env))"
    "sol_view \<in> set (fst (get_latest_prices three_row_env))"
    by (simp_all only: h2) simp_all
  have r: "reference_row three_row_env ''BTC'' btc_day_old" "hr_close btc_day_old = Some 100"
    "reference_row three_row_env ''ETH'' eth_day_old" "hr_close eth_day_old = Some 0"
    by (simp_all add: three_row_defs env_defs demo_defs)
  have n: "no_reference three_row_env ''ETH''" "no_reference three_row_env ''SOL''"
  proof -
    from r(3,4) show "no_reference three_row_env ''ETH''"
      unfolding no_reference_def by blast
    show "no_reference three_row_env ''SOL''"
      by (simp add: no_reference_def three_row_env_def env_defs demo_defs)
  qed
  have rows: "db_get_latest_prices three_row_env = Returns (Some [btc_row, eth_row, sol_row])"
    by (simp add: three_row_env_def env_defs no_cache_env_def)
  have api: "row_api_change_24h eth_row = None" "row_api_change_24h sol_row = Some 3"
    by (simp_all add: eth_row_def sol_row_def)
  have b: "pv_change_24h btc_view = (row_price btc_row - 100) / 100 * 100"
  proof -
    from db_path_change_24h [OF h1 m(1)] rows
    obtain item where i: "item \<in> set [btc_row, eth_row, sol_row]"
        "pv_symbol btc_view = row_symbol item"
      and a: "\<forall>r ref. reference_row three_row_env (row_symbol item) r \<and> hr_close r = Some ref
                  \<and> ref \<noteq> 0 \<longrightarrow>
                pv_change_24h btc_view = (row_price item - ref) / ref * 100"
      by auto
    from i have ib: "item = btc_row"
      by (auto simp: btc_view_def btc_row_def eth_row_def sol_row_def)
    have sb: "row_symbol btc_row = ''BTC''" by (simp add: btc_row_def)
    show ?thesis
      by (rule a [unfolded ib sb, rule_format, of btc_day_old 100]) (simp add: r)
  qed
  have e: "pv_change_24h eth_view = 0"
  proof -
    from db_path_change_24h [OF h1 m(2)] rows
    obtain item where i: "item \<in> set [btc_row, eth_row, sol_row]"
        "pv_symbol eth_view = row_symbol item"
      and a: "no_reference three_row_env (row_symbol item) \<longrightarrow>
                pv_change_24h eth_view
                  = (case row_api_change_24h item of Some a \<Rightarrow> a | None \<Rightarrow> 0)"
      by auto
    from i have "item = eth_row"
      by (auto simp: eth_view_def btc_row_def eth_row_def sol_row_def)
    moreover from this have "row_symbol item = ''ETH''" by (simp add: eth_row_def)
    ultimately show ?thesis using a n(1) api(1) by simp
  qed
  have s: "pv_change_24h sol_view = 3"
  proof -
    from db_path_change_24h [OF h1 m(3)] rows
    obtain item where i: "item \<in> set [btc_row, eth_row, sol_row]"
        "pv_symbol sol_view = row_symbol item"
      and a: "no_reference three_row_env (row_symbol item) \<longrightarrow>
                pv_change_24h sol_view
                  = (case row_api_change_24h item of Some a \<Rightarrow> a | None \<Rightarrow> 0)"
      by auto
    from i have "item = sol_row"
      by (auto simp: sol_view_def btc_row_def eth_row_def sol_row_def)
    moreover from this have "row_symbol item = ''SOL''" by (simp add: sol_row_def)
    ultimately show ?thesis using a n(2) api(2) by simp
  qed
  from h1 m h2 r(2) b api e s show ?thesis by simp
qed

lemma latest_hit:
  "redis_manager env = Some cm \<Longrightarrow> cm_get_latest_prices cm = Returns (Some p) \<Longrightarrow> p \<noteq> [] \<Longrightarrow>
     get_latest_prices env = (p, [CacheGetLatest])"
  by (simp add: get_latest_prices_def cached_latest_prices_def)

lemma latest_miss_data:
  "redis_manager env = Some cm \<Longrightarrow> latest_miss cm \<Longrightarrow> db_get_connection env = Returns True \<Longrightarrow>
   db_get_latest_prices env = Returns (Some data) \<Longrightarrow> data \<noteq> [] \<Longrightarrow>
     get_latest_prices env =
       (map (price_entry env) data,
        [CacheGetLatest, DbGetConnection True, DbQueryLatest]
        @ map (\<lambda>item. DbQueryHour (row_symbol item)) data
        @ [CachePutLatest (map (price_entry env) data)]
        @ (if cm_cache_latest_prices_raises cm then [CachePutLatestRaised] else [])
        @ [ConnClose])"
  by (auto simp: latest_miss_def get_latest_prices_def cached_latest_prices_def
        stored_latest_prices_def Let_def)

lemma latest_empty_no_put:
  "fst (get_latest_prices env) = [] \<Longrightarrow> CachePutLatest q \<notin> set (snd (get_latest_prices env))"
  by (auto simp: get_latest_prices_def cached_latest_prices_def
        stored_latest_prices_def Let_def
        split: option.splits outcome.splits bool.splits if_splits)

lemma chart_hit:
  "ce_redis_manager env = Some cm \<Longrightarrow> cc_get_chart_data cm s timeframe = Returns (Some p) \<Longrightarrow>
   s \<noteq> [] \<Longrightarrow> p \<noteq> [] \<Longrightarrow>
     get_chart_data env timeframe (Some s) limit = (p, [CacheGetChart s timeframe])"
  by (simp add: get_chart_data_def cached_chart_data_def truthy_symbol_def)

lemma chart_miss_data:
  "ce_redis_manager env = Some cm \<Longrightarrow> chart_miss cm s timeframe \<Longrightarrow> s \<noteq> [] \<Longrightarrow>
   ce_db_connect env = Returns True \<Longrightarrow>
   ce_db_get_chart_data env s timeframe = Returns (Some data) \<Longrightarrow> data \<noteq> [] \<Longrightarrow>
     get_chart_data env timeframe (Some s) limit =
       (map (chart_item_of s) data,
        [CacheGetChart s timeframe, DbConnect True, DbQueryChart s timeframe, DbDisconnect,
         CachePutChart s timeframe (map (chart_item_of s) data)]
        @ (if cc_cache_chart_data_raises cm then [CachePutChartRaised] else []))"
  by (auto simp: chart_miss_def get_chart_data_def cached_chart_data_def
        stored_chart_data_def truthy_symbol_def Let_def)

lemma chart_empty_no_put:
  "fst (get_chart_data env timeframe symbol limit) = [] \<Longrightarrow>
     CachePutChart s' t' q \<notin> set (snd (get_chart_data env timeframe symbol limit))"
  by (auto simp: get_chart_data_def cached_chart_data_def
        stored_chart_data_def Let_def
        split: option.splits outcome.splits bool.splits if_splits)

lemmas chart_env_defs =
  chart_miss_env_def chart_hit_env_def failing_query_env_def cold_chart_cache_def
  warm_chart_cache_def btc_chart_row_def btc_chart_item_def chart_item_of_def

lemmas chart_defs =
  get_chart_data_def cached_chart_data_def stored_chart_data_def truthy_symbol_def Let_def

text \<open>
  C4, as stated, fails: with a cache manager that misses and a store that holds no
  price row, \<open>get_latest_prices\<close> returns the empty list and calls no cache write at
  all, so the result of the miss is not written back.
\<close>

theorem empty_result_not_written_back:
  "fst (cached_latest_prices empty_store_env) = None
   \<and> get_latest_prices empty_store_env
       = ([], [CacheGetLatest, DbGetConnection True, DbQueryLatest, ConnClose])
   \<and> CachePutLatest (fst (get_latest_prices empty_store_env))
       \<notin> set (snd (get_latest_prices empty_store_env))"
  by (simp add: read_defs env_defs demo_defs)

text \<open>
  C4, amended. With a cache manager present (and, for charts, a non-empty symbol) the
  read asks the cache first and returns a non-empty cached payload with no call to the
  store. On a miss it reads the store and, when the result is not empty, calls the
  cache write with exactly the returned result after the store read (never before);
  an empty result is returned with no cache write.
\<close>

theorem cache_aside_read_path:
  "(redis_manager env = Some cm \<and> cm_get_latest_prices cm = Returns (Some p) \<and> p \<noteq> [] \<longrightarrow>
      get_latest_prices env = (p, [CacheGetLatest]))
   \<and> (redis_manager env = Some cm \<and> latest_miss cm \<and> db_get_connection env = Returns True
        \<and> db_get_latest_prices env = Returns (Some data) \<and> data \<noteq> [] \<longrightarrow>
      get_latest_prices env =
        (map (price_entry env) data,
         [CacheGetLatest, DbGetConnection True, DbQueryLatest]
         @ map (\<lambda>item. DbQueryHour (row_symbol item)) data
         @ [CachePutLatest (map (price_entry env) data)]
         @ (if cm_cache_latest_prices_raises cm then [CachePutLatestRaised] else [])
         @ [ConnClose]))
   \<and> (fst (get_latest_prices env) = [] \<longrightarrow>
        CachePutLatest q \<notin> set (snd (get_latest_prices env)))
   \<and> (ce_redis_manager cenv = Some ccm \<and> cc_get_chart_data ccm s timeframe = Returns (Some cp)
        \<and> s \<noteq> [] \<and> cp \<noteq> [] \<longrightarrow>
      get_chart_data cenv timeframe (Some s) limit = (cp, [CacheGetChart s timeframe]))
   \<and> (ce_redis_manager cenv = Some ccm \<and> chart_miss ccm s timeframe \<and> s \<noteq> []
        \<and> ce_db_connect cenv = Returns True
        \<and> ce_db_get_chart_data cenv s timeframe = Returns (Some cdata) \<and> cdata \<noteq> [] \<longrightarrow>
      get_chart_data cenv timeframe (Some s) limit =
        (map (chart_item_of s) cdata,
         [CacheGetChart s timeframe, DbConnect True, DbQueryChart s timeframe, DbDisconnect,
          CachePutChart s timeframe (map (chart_item_of s) cdata)]
         @ (if cc_cache_chart_data_raises ccm then [CachePutChartRaised] else [])))
   \<and> (fst (get_chart_data cenv timeframe symbol limit) = [] \<longrightarrow>
        CachePutChart s' t' cq \<notin> set (snd (get_chart_data cenv timeframe symbol limit)))"
  using latest_hit [of env cm p] latest_miss_data [of env cm data]
    latest_empty_no_put [of env q] chart_hit [of cenv ccm s timeframe cp limit]
    chart_miss_data [of cenv ccm s timeframe cdata limit]
    chart_empty_no_put [of cenv timeframe symbol limit s' t' cq]
  by blast

theorem cache_aside_read_path_witness:
  "get_latest_prices hit_env = ([btc_view], [CacheGetLatest])
   \<and> get_latest_prices miss_env =
       ([btc_view, eth_view],
        [CacheGetLatest, DbGetConnection True, DbQueryLatest, DbQueryHour ''BTC'',
         DbQueryHour ''ETH'', CachePutLatest [btc_view, eth_view], ConnClose])
   \<and> fst (get_latest_prices empty_store_env) = []
   \<and> CachePutLatest [] \<notin> set (snd (get_latest_prices empty_store_env))
   \<and> get_chart_data chart_hit_env ''hour'' (Some ''BTC'') 100
       = ([btc_chart_item], [CacheGetChart ''BTC'' ''hour''])
   \<and> get_chart_data chart_miss_env ''hour'' (Some ''BTC'') 100 =
       ([btc_chart_item],
        [CacheGetChart ''BTC'' ''hour'', DbConnect True, DbQueryChart ''BTC'' ''hour'',
         DbDisconnect, CachePutChart ''BTC'' ''hour'' [btc_chart_item]])
   \<and> fst (get_chart_data chart_miss_env ''hour'' None 100) = []
   \<and> CachePutChart ''BTC'' ''hour'' [] \<notin> set (snd (get_chart_data chart_miss_env ''hour'' None 100))"
proof -
  have hit: "redis_manager hit_env = Some warm_cache
      \<and> cm_get_latest_prices warm_cache = Returns (Some [btc_view]) \<and> [btc_view] \<noteq> []"
    by (simp add: env_defs demo_defs)
  have chit: "ce_redis_manager chart_hit_env = Some warm_chart_cache
      \<and> cc_get_chart_data warm_chart_cache ''BTC'' ''hour'' = Returns (Some [btc_chart_item])
      \<and> ''BTC'' \<noteq> [] \<and> [btc_chart_item] \<noteq> []"
    by (simp add: chart_env_defs)
  have miss: "redis_manager miss_env = Some missing_cache \<and> latest_miss missing_cache
      \<and> db_get_connection miss_env = Returns True
      \<and> db_get_latest_prices miss_env = Returns (Some [btc_row, eth_row])
      \<and> [btc_row, eth_row] \<noteq> []"
    by (simp add: env_defs latest_miss_def no_cache_env_def)
  have cmiss: "ce_redis_manager chart_miss_env = Some cold_chart_cache
      \<and> chart_miss cold_chart_cache ''BTC'' ''hour'' \<and> ''BTC'' \<noteq> []
      \<and> ce_db_connect chart_miss_env = Returns True
      \<and> ce_db_get_chart_data chart_miss_env ''BTC'' ''hour'' = Returns (Some [btc_chart_row])
      \<and> [btc_chart_row] \<noteq> []"
    by (simp add: chart_env_defs chart_miss_def)
  have entries: "map (price_entry miss_env) [btc_row, eth_row] = [btc_view, eth_view]"
    "map (chart_item_of ''BTC'') [btc_chart_row] = [btc_chart_item]"
    by (simp_all add: read_defs env_defs demo_defs chart_env_defs)
  have empty: "fst (get_latest_prices empty_store_env) = []"
    "fst (get_chart_data chart_miss_env ''hour'' None 100) = []"
    by (simp_all add: read_defs env_defs demo_defs chart_env_defs chart_defs)
  from hit chit cache_aside_read_path
    [where env = hit_env and cm = warm_cache and p = "[btc_view]"
       and cenv = chart_hit_env and ccm = warm_chart_cache and s = "''BTC''"
       and timeframe = "''hour''" and cp = "[btc_chart_item]" and limit = 100]
  have a: "get_latest_prices hit_env = ([btc_view], [CacheGetLatest])
      \<and> get_chart_data chart_hit_env ''hour'' (Some ''BTC'') 100
          = ([btc_chart_item], [CacheGetChart ''BTC'' ''hour''])"
    by blast
  from miss cmiss cache_aside_read_path
    [where env = miss_env and cm = missing_cache and data = "[btc_row, eth_row]"
       and cenv = chart_miss_env and ccm = cold_chart_cache and s = "''BTC''"
       and timeframe = "''hour''" and cdata = "[btc_chart_row]" and limit = 100]
  have b: "get_latest_prices miss_env =
       (map (price_entry miss_env) [btc_row, eth_row],
        [CacheGetLatest, DbGetConnection True, DbQueryLatest]
         @ map (\<lambda>item. DbQueryHour (row_symbol item)) [btc_row, eth_row]
         @ [CachePutLatest (map (price_entry miss_env) [btc_row, eth_row])]
         @ (if cm_cache_latest_prices_raises missing_cache then [CachePutLatestRaised] else [])
         @ [ConnClose])
      \<and> get_chart_data chart_miss_env ''hour'' (Some ''BTC'') 100 =
        (map (chart_item_of ''BTC'') [btc_chart_row],
         [CacheGetChart ''BTC'' ''hour'', DbConnect True, DbQueryChart ''BTC'' ''hour'',
          DbDisconnect, CachePutChart ''BTC'' ''hour'' (map (chart_item_of ''BTC'') [btc_chart_row])]
         @ (if cc_cache_chart_data_raises cold_chart_cache then [CachePutChartRaised] else []))"
    by blast
  have b': "get_latest_prices miss_env =
       ([btc_view, eth_view],
        [CacheGetLatest, DbGetConnection True, DbQueryLatest, DbQueryHour ''BTC'',
         DbQueryHour ''ETH'', CachePutLatest [btc_view, eth_view], ConnClose])
      \<and> get_chart_data chart_miss_env ''hour'' (Some ''BTC'') 100 =
       ([btc_chart_item],
        [CacheGetChart ''BTC'' ''hour'', DbConnect True, DbQueryChart ''BTC'' ''hour'',
         DbDisconnect, CachePutChart ''BTC'' ''hour'' [btc_chart_item]])"
    unfolding b [THEN conjunct1] b [THEN conjunct2] entries
    by (simp add: missing_cache_def cold_chart_cache_def btc_row_def eth_row_def)
  from empty cache_aside_read_path
    [where env = empty_store_env and q = "[]" and cenv = chart_miss_env
       and timeframe = "''hour''" and symbol = None and limit = 100
       and s' = "''BTC''" and t' = "''hour''" and cq = "[]"]
  have c: "CachePutLatest [] \<notin> set (snd (get_latest_prices empty_store_env))
      \<and> CachePutChart ''BTC'' ''hour'' []
          \<notin> set (snd (get_chart_data chart_miss_env ''hour'' None 100))"
    by blast
  from a b' c empty show ?thesis by blast
qed

section \<open>Connections\<close>

lemma open_after_append: "open_after k (tr @ tr') = open_after (open_after k tr) tr'"
  by (induction k tr rule: open_after.induct) auto

lemma open_after_queries: "open_after k (map (\<lambda>item. DbQueryHour (f item)) data) = k"
  by (induction data) auto

text \<open>\<open>get_latest_prices\<close> returns every connection it obtains: its \<open>finally\<close> closes it.\<close>

lemma get_latest_prices_releases: "open_after 0 (snd (get_latest_prices env)) = 0"
proof -
  have c: "open_after 0 (snd (cached_latest_prices env)) = 0"
    by (auto simp: cached_latest_prices_def split: option.splits outcome.splits)
  have s: "open_after 0 (snd (stored_latest_prices env)) = 0"
    by (auto simp: stored_latest_prices_def Let_def open_after_append open_after_queries
             split: option.splits outcome.splits bool.splits)
  show ?thesis
  proof (cases "fst (cached_latest_prices env)")
    case None
    then show ?thesis by (simp add: get_latest_prices_on_miss open_after_append c s)
  next
    case (Some p)
    then show ?thesis using c
      by (cases "cached_latest_prices env") (auto simp: get_latest_prices_def)
  qed
qed

text \<open>Both ingestion passes disconnect on every way out once the connection is open.\<close>

lemma realtime_pass_disconnects:
  "rt_connect env = Returns True \<Longrightarrow>
     last (snd (process_and_store_realtime_data env)) = RtDisconnect"
  by (auto simp: process_and_store_realtime_data_def Let_def
           split: outcome.splits option.splits prod.splits bool.splits)

lemma data_pass_disconnects:
  "dp_connect env = Returns True \<Longrightarrow>
     last (snd (process_and_store_data env)) = DpDisconnect"
  by (auto simp: process_and_store_data_def Let_def
           split: outcome.splits option.splits prod.splits bool.splits)

text \<open>
  C7. The claim holds for \<open>get_latest_prices\<close> and the two ingestion passes, whose
  \<open>finally\<close> releases the connection, and the code of \<open>get_chart_data\<close> breaks it: with a
  store that connects and whose chart query raises, \<open>get_chart_data('hour', 'BTC')\<close>
  returns the empty list and never calls \<open>disconnect\<close>; one connection stays open.
\<close>

theorem get_chart_data_leaves_connection_open:
  "get_chart_data failing_query_env ''hour'' (Some ''BTC'') 100
     = ([], [CacheGetChart ''BTC'' ''hour'', DbConnect True, DbQueryChart ''BTC'' ''hour''])
   \<and> chart_open_after 0 (snd (get_chart_data failing_query_env ''hour'' (Some ''BTC'') 100)) = 1"
  by (simp add: chart_defs chart_env_defs)

section \<open>Clearing the cache\<close>

text \<open>
  C8. The claim describes the first definition of \<open>clear_cache\<close>, which no call reaches:
  the second definition of the same name replaces it. With a working cache manager,
  \<open>clear_cache('prices')\<close> fails with the message for an unsupported type and clears
  nothing, and \<open>clear_cache('all')\<close> succeeds without reporting a number of keys; the
  first definition would have cleared the price keys and reported their number.
\<close>

theorem clear_cache_rejects_prices:
  "clear_cache (Some ready_manager) (Some ''prices'')
     = \<lparr>success = False, cleared_keys = None, message = UnsupportedType (Some ''prices'')\<rparr>
   \<and> clear_cache (Some ready_manager) (Some ''all'')
     = \<lparr>success = True, cleared_keys = None, message = AllCleared\<rparr>
   \<and> clear_cache_first (Some ready_manager) (Some ''prices'')
     = \<lparr>success = True, cleared_keys = Some 3, message = ClearedScope (Some ''prices'')\<rparr>"
  by (simp add: clear_cache_def clear_cache_first_def ready_manager_def)

section \<open>The ingestion passes\<close>

lemma inserted_append: "inserted (a @ b) = inserted a @ inserted b"
  by (induction a rule: inserted.induct) auto

lemma skipped_append: "skipped (a @ b) = skipped a @ skipped b"
  by (induction a rule: skipped.induct) auto

lemma cached_lists_append: "cached_lists (a @ b) = cached_lists a @ cached_lists b"
  by (induction a rule: cached_lists.induct) auto

lemma cached_ones_append: "cached_ones (a @ b) = cached_ones a @ cached_ones b"
  by (induction a rule: cached_ones.induct) auto

lemma store_sample_rejected:
  "rt_quality_score env d = Returns q \<Longrightarrow> q < 0.5 \<Longrightarrow> \<not> rt_log_data_status_raises env d \<Longrightarrow>
     store_sample env d = ([RtQuality d, RtLogSkipped d], True)"
  by (simp add: store_sample_def)

lemma store_sample_inserted:
  "set (inserted (fst (store_sample env d))) \<subseteq> {x. x = d \<and> accepted env x}"
  by (auto simp: store_sample_def accepted_def split: outcome.splits if_splits)

lemma store_sample_raises: "sample_raises env d \<Longrightarrow> snd (store_sample env d) = False"
  by (auto simp: store_sample_def sample_raises_def accepted_def split: outcome.splits)

lemma store_sample_ok:
  assumes "\<not> sample_raises env d"
  shows "\<exists>evs. store_sample env d = (evs, True)
           \<and> inserted evs = (if accepted env d then [d] else [])
           \<and> skipped evs = (if accepted env d then [] else [d])
           \<and> cached_lists evs = [] \<and> cached_ones evs = []
           \<and> (accepted env d \<longrightarrow> RtInsert d \<in> set evs
                \<and> (rt_insert_current_price env d = Returns False
                      \<longrightarrow> RtLogStoreFailed d \<in> set evs))"
proof -
  from assms obtain q where q: "rt_quality_score env d = Returns q"
    by (cases "rt_quality_score env d") (auto simp: sample_raises_def)
  from assms have l: "\<not> rt_log_data_status_raises env d"
    by (simp add: sample_raises_def)
  show ?thesis
  proof (cases "q \<ge> 0.5")
    case True
    with q assms obtain ok where "rt_insert_current_price env d = Returns ok"
      by (cases "rt_insert_current_price env d") (auto simp: sample_raises_def accepted_def)
    with q l True show ?thesis by (simp add: store_sample_def accepted_def)
  next
    case False
    with q l show ?thesis by (simp add: store_sample_def accepted_def)
  qed
qed

lemma store_samples_inserted:
  "set (inserted (fst (store_samples env ds))) \<subseteq> {x. x \<in> set ds \<and> accepted env x}"
proof (induction ds)
  case Nil
  then show ?case by simp
next
  case (Cons d ds)
  obtain e1 b1 where s1: "store_sample env d = (e1, b1)" by (cases "store_sample env d")
  obtain e2 b2 where s2: "store_samples env ds = (e2, b2)" by (cases "store_samples env ds")
  from store_sample_inserted [of env d] s1
  have i1: "set (inserted e1) \<subseteq> {x. x = d \<and> accepted env x}" by simp
  from Cons s2 have i2: "set (inserted e2) \<subseteq> {x. x \<in> set ds \<and> accepted env x}" by simp
  from i1 i2 show ?case
    by (cases b1) (auto simp: s1 s2 inserted_append)
qed

lemma store_samples_raises:
  "list_ex (sample_raises env) ds \<Longrightarrow> snd (store_samples env ds) = False"
proof (induction ds)
  case Nil
  then show ?case by simp
next
  case (Cons d ds)
  show ?case
  proof (cases "sample_raises env d")
    case True
    from store_sample_raises [OF this] show ?thesis
      by (cases "store_sample env d") auto
  next
    case False
    with Cons have "snd (store_samples env ds) = False" by simp
    then show ?thesis
      by (cases "store_sample env d"; cases "store_samples env ds")
         (auto split: bool.splits)
  qed
qed

lemma store_samples_ok:
  assumes "\<not> list_ex (sample_raises env) ds"
  shows "\<exists>evs. store_samples env ds = (evs, True)
           \<and> inserted evs = filter (accepted env) ds
           \<and> skipped evs = filter (\<lambda>d. \<not> accepted env d) ds
           \<and> cached_lists evs = [] \<and> cached_ones evs = []
           \<and> (\<forall>d \<in> set ds. accepted env d \<longrightarrow> RtInsert d \<in> set evs
                \<and> (rt_insert_current_price env d = Returns False
                      \<longrightarrow> RtLogStoreFailed d \<in> set evs))"
  using assms
proof (induction ds)
  case Nil
  then show ?case by simp
next
  case (Cons d ds)
  from Cons.prems store_sample_ok [of env d]
  obtain e1 where e1: "store_sample env d = (e1, True)"
      "inserted e1 = (if accepted env d then [d] else [])"
      "skipped e1 = (if accepted env d then [] else [d])"
      "cached_lists e1 = []" "cached_ones e1 = []"
      "accepted env d \<longrightarrow> RtInsert d \<in> set e1
         \<and> (rt_insert_current_price env d = Returns False \<longrightarrow> RtLogStoreFailed d \<in> set e1)"
    by auto
  from Cons obtain e2 where e2: "store_samples env ds = (e2, True)"
      "inserted e2 = filter (accepted env) ds"
      "skipped e2 = filter (\<lambda>d. \<not> accepted env d) ds"
      "cached_lists e2 = []" "cached_ones e2 = []"
      "\<forall>d \<in> set ds. accepted env d \<longrightarrow> RtInsert d \<in> set e2
         \<and> (rt_insert_current_price env d = Returns False \<longrightarrow> RtLogStoreFailed d \<in> set e2)"
    by auto
  have "store_samples env (d # ds) = (e1 @ e2, True)"
    by (simp add: e1(1) e2(1))
  moreover have "inserted (e1 @ e2) = filter (accepted env) (d # ds)"
    by (simp add: inserted_append e1(2) e2(2))
  moreover have "skipped (e1 @ e2) = filter (\<lambda>d. \<not> accepted env d) (d # ds)"
    by (simp add: skipped_append e1(3) e2(3))
  moreover have "cached_lists (e1 @ e2) = []" "cached_ones (e1 @ e2) = []"
    by (simp_all add: cached_lists_append cached_ones_append e1(4,5) e2(4,5))
  moreover have "\<forall>x \<in> set (d # ds). accepted env x \<longrightarrow> RtInsert x \<in> set (e1 @ e2)
        \<and> (rt_insert_current_price env x = Returns False
              \<longrightarrow> RtLogStoreFailed x \<in> set (e1 @ e2))"
    using e1(6) e2(6) by auto
  ultimately show ?case by blast
qed

lemma cache_samples_ok:
  "\<not> list_ex (\<lambda>d. rt_cache_realtime_price env d = Raises) ds \<Longrightarrow>
     cache_samples env ds
       = (map (\<lambda>d. RtCacheOne (s_symbol d) (cache_item_of env d)) ds, True)"
proof (induction ds)
  case Nil
  then show ?case by simp
next
  case (Cons d ds)
  then obtain b where "rt_cache_realtime_price env d = Returns b"
    by (cases "rt_cache_realtime_price env d") auto
  with Cons show ?case by simp
qed

lemma cache_samples_raises:
  "list_ex (\<lambda>d. rt_cache_realtime_price env d = Raises) ds \<Longrightarrow>
     snd (cache_samples env ds) = False"
proof (induction ds)
  case Nil
  then show ?case by simp
next
  case (Cons d ds)
  then show ?case
    by (cases "rt_cache_realtime_price env d"; cases "cache_samples env ds") auto
qed

lemma cache_samples_inserted: "inserted (fst (cache_samples env ds)) = []"
proof (induction ds)
  case Nil
  then show ?case by simp
next
  case (Cons d ds)
  then show ?case
    by (cases "rt_cache_realtime_price env d"; cases "cache_samples env ds") auto
qed

lemma inserted_cache_events:
  "inserted (map (\<lambda>d. RtCacheOne (s_symbol d) (cache_item_of env d)) ds) = []"
  by (induction ds) auto

text \<open>The trace of a pass in which no call raises.\<close>

lemma realtime_pass_trace:
  assumes c: "rt_connect env = Returns True"
    and s: "rt_scrape env = Returns (Some data)" and ne: "data \<noteq> []"
    and nr: "\<not> rt_pass_raises env data"
  shows "\<exists>evs. process_and_store_realtime_data env =
           (Returns True,
            [RtConnect, RtScrape] @ evs @ [RtCacheList (map (cache_item_of env) data)]
            @ map (\<lambda>d. RtCacheOne (s_symbol d) (cache_item_of env d)) data @ [RtDisconnect])
         \<and> inserted evs = filter (accepted env) data
         \<and> skipped evs = filter (\<lambda>d. \<not> accepted env d) data
         \<and> cached_lists evs = [] \<and> cached_ones evs = []
         \<and> (\<forall>d \<in> set data. accepted env d \<longrightarrow> RtInsert d \<in> set evs
              \<and> (rt_insert_current_price env d = Returns False
                    \<longrightarrow> RtLogStoreFailed d \<in> set evs))"
proof -
  from nr have n1: "\<not> list_ex (sample_raises env) data"
    and n2: "rt_cache_realtime_prices env \<noteq> Raises"
    and n3: "\<not> list_ex (\<lambda>d. rt_cache_realtime_price env d = Raises) data"
    by (simp_all add: rt_pass_raises_def)
  from store_samples_ok [OF n1]
  obtain evs where evs: "store_samples env data = (evs, True)"
      "inserted evs = filter (accepted env) data"
      "skipped evs = filter (\<lambda>d. \<not> accepted env d) data"
      "cached_lists evs = []" "cached_ones evs = []"
      "\<forall>d \<in> set data. accepted env d \<longrightarrow> RtInsert d \<in> set evs
         \<and> (rt_insert_current_price env d = Returns False \<longrightarrow> RtLogStoreFailed d \<in> set evs)"
    by blast
  from n2 obtain b where b: "rt_cache_realtime_prices env = Returns b"
    by (cases "rt_cache_realtime_prices env") auto
  have "process_and_store_realtime_data env =
           (Returns True,
            [RtConnect, RtScrape] @ evs @ [RtCacheList (map (cache_item_of env) data)]
            @ map (\<lambda>d. RtCacheOne (s_symbol d) (cache_item_of env d)) data @ [RtDisconnect])"
    by (simp add: process_and_store_realtime_data_def c s ne evs(1) b cache_samples_ok [OF n3])
  with evs show ?thesis by blast
qed

text \<open>The result of a pass once the connection is open and the scraper has answered.\<close>

lemma realtime_pass_result:
  assumes c: "rt_connect env = Returns True"
    and s: "rt_scrape env = Returns (Some data)" and ne: "data \<noteq> []"
  shows "fst (process_and_store_realtime_data env) = Returns (\<not> rt_pass_raises env data)"
proof (cases "rt_pass_raises env data")
  case False
  from realtime_pass_trace [OF c s ne False] False show ?thesis by auto
next
  case True
  show ?thesis
  proof (cases "list_ex (sample_raises env) data")
    case r1: True
    from store_samples_raises [OF this] True c s ne show ?thesis
      by (cases "store_samples env data") (auto simp: process_and_store_realtime_data_def)
  next
    case r1: False
    from store_samples_ok [OF this] obtain evs where evs: "store_samples env data = (evs, True)"
      by blast
    show ?thesis
    proof (cases "rt_cache_realtime_prices env")
      case Raises
      with True c s ne evs show ?thesis
        by (simp add: process_and_store_realtime_data_def)
    next
      case (Returns b)
      with True r1 have "list_ex (\<lambda>d. rt_cache_realtime_price env d = Raises) data"
        by (simp add: rt_pass_raises_def)
      from cache_samples_raises [OF this] True c s ne evs Returns show ?thesis
        by (cases "cache_samples env data") (auto simp: process_and_store_realtime_data_def)
    qed
  qed
qed

lemma cache_samples_inserted_pair: "cache_samples env ds = (evs, b) \<Longrightarrow> inserted evs = []"
  using cache_samples_inserted [of env ds] by simp

lemma store_samples_inserted_pair:
  "store_samples env ds = (evs, b) \<Longrightarrow> x \<in> set (inserted evs) \<Longrightarrow> accepted env x"
  using store_samples_inserted [of env ds] by auto

lemma realtime_pass_inserted:
  "set (inserted (snd (process_and_store_realtime_data env))) \<subseteq> {d. accepted env d}"
  by (auto simp: process_and_store_realtime_data_def Let_def inserted_append
        cache_samples_inserted_pair
        split: outcome.splits option.splits bool.splits prod.splits if_splits
        dest: store_samples_inserted_pair)

lemmas batch_defs =
  batch_env_def store_down_env_def fresh_btc_def stale_eth_def
  dp_batch_env_def hour_frame_row_def

lemmas pass_defs =
  process_and_store_realtime_data_def store_sample_def cache_item_of_def accepted_def
  sample_raises_def rt_pass_raises_def process_and_store_data_def dp_pass_raises_def
  current_samples_def

text \<open>
  C2, as stated, fails in its last part: for a batch of a fresh BTC sample and a
  stale ETH sample the pass hands only BTC to the store and then puts both samples
  in the cache list, the rejected one included.
\<close>

theorem rejected_sample_is_cached:
  "inserted (snd (process_and_store_realtime_data batch_env)) = [fresh_btc]
   \<and> skipped (snd (process_and_store_realtime_data batch_env)) = [stale_eth]
   \<and> cached_lists (snd (process_and_store_realtime_data batch_env))
       = [[cache_item_of batch_env fresh_btc, cache_item_of batch_env stale_eth]]
   \<and> cached_lists (snd (process_and_store_realtime_data batch_env))
       \<noteq> [map (cache_item_of batch_env) (filter (accepted batch_env) [fresh_btc, stale_eth])]"
  by (simp add: pass_defs batch_defs)

text \<open>
  C2, amended. In every pass, only samples whose score against the minute cadence is
  at least 0.5 are handed to the store's insert, and a rejected sample is skipped with
  a log entry and leaves the loop running on the rest of the batch. In a pass in
  which no call raises an exception, the samples handed to the insert are exactly the
  accepted ones, in the order of the batch, the skipped ones exactly the others, and
  after the store loop (which makes no cache call) the pass writes every fetched
  sample, accepted or not, to the cache: the whole list in one call, then one entry
  for each sample under its symbol, in the order of the batch.
\<close>

theorem realtime_pass_gate_and_cache:
  "set (inserted (snd (process_and_store_realtime_data env))) \<subseteq> {d. accepted env d}
   \<and> (rt_quality_score env d = Returns q \<and> q < 0.5 \<and> \<not> rt_log_data_status_raises env d \<longrightarrow>
        store_samples env (d # ds) =
          ([RtQuality d, RtLogSkipped d] @ fst (store_samples env ds),
           snd (store_samples env ds)))
   \<and> (rt_connect env = Returns True \<and> rt_scrape env = Returns (Some data) \<and> data \<noteq> []
        \<and> \<not> rt_pass_raises env data \<longrightarrow>
      (\<exists>evs. snd (process_and_store_realtime_data env) =
            [RtConnect, RtScrape] @ evs @ [RtCacheList (map (cache_item_of env) data)]
            @ map (\<lambda>d. RtCacheOne (s_symbol d) (cache_item_of env d)) data @ [RtDisconnect]
          \<and> inserted evs = filter (accepted env) data
          \<and> skipped evs = filter (\<lambda>d. \<not> accepted env d) data
          \<and> cached_lists evs = [] \<and> cached_ones evs = []))"
proof (intro conjI impI)
  show "set (inserted (snd (process_and_store_realtime_data env))) \<subseteq> {d. accepted env d}"
    by (rule realtime_pass_inserted)
next
  assume "rt_quality_score env d = Returns q \<and> q < 0.5 \<and> \<not> rt_log_data_status_raises env d"
  then have "store_sample env d = ([RtQuality d, RtLogSkipped d], True)"
    by (simp add: store_sample_rejected)
  then show "store_samples env (d # ds) =
          ([RtQuality d, RtLogSkipped d] @ fst (store_samples env ds),
           snd (store_samples env ds))"
    by (cases "store_samples env ds") simp
next
  assume a: "rt_connect env = Returns True \<and> rt_scrape env = Returns (Some data) \<and> data \<noteq> []
      \<and> \<not> rt_pass_raises env data"
  from realtime_pass_trace [of env data] a
  obtain evs where "process_and_store_realtime_data env =
           (Returns True,
            [RtConnect, RtScrape] @ evs @ [RtCacheList (map (cache_item_of env) data)]
            @ map (\<lambda>d. RtCacheOne (s_symbol d) (cache_item_of env d)) data @ [RtDisconnect])"
      "inserted evs = filter (accepted env) data"
      "skipped evs = filter (\<lambda>d. \<not> accepted env d) data"
      "cached_lists evs = []" "cached_ones evs = []"
    by blast
  then show "\<exists>evs. snd (process_and_store_realtime_data env) =
            [RtConnect, RtScrape] @ evs @ [RtCacheList (map (cache_item_of env) data)]
            @ map (\<lambda>d. RtCacheOne (s_symbol d) (cache_item_of env d)) data @ [RtDisconnect]
          \<and> inserted evs = filter (accepted env) data
          \<and> skipped evs = filter (\<lambda>d. \<not> accepted env d) data
          \<and> cached_lists evs = [] \<and> cached_ones evs = []"
    by (intro exI [of _ evs]) simp
qed

theorem realtime_pass_gate_and_cache_witness:
  "rt_connect batch_env = Returns True
   \<and> rt_scrape batch_env = Returns (Some [fresh_btc, stale_eth])
   \<and> \<not> rt_pass_raises batch_env [fresh_btc, stale_eth]
   \<and> (\<exists>evs. snd (process_and_store_realtime_data batch_env) =
            [RtConnect, RtScrape] @ evs
            @ [RtCacheList [cache_item_of batch_env fresh_btc, cache_item_of batch_env stale_eth],
               RtCacheOne ''BTC'' (cache_item_of batch_env fresh_btc),
               RtCacheOne ''ETH'' (cache_item_of batch_env stale_eth),
               RtDisconnect]
          \<and> inserted evs = [fresh_btc] \<and> skipped evs = [stale_eth])
   \<and> set (inserted (snd (process_and_store_realtime_data batch_env)))
        \<subseteq> {d. accepted batch_env d}
   \<and> rt_quality_score batch_env stale_eth = Returns 0.2
   \<and> store_samples batch_env [stale_eth] = ([RtQuality stale_eth, RtLogSkipped stale_eth], True)"
proof -
  have h: "rt_connect batch_env = Returns True
      \<and> rt_scrape batch_env = Returns (Some [fresh_btc, stale_eth])
      \<and> [fresh_btc, stale_eth] \<noteq> [] \<and> \<not> rt_pass_raises batch_env [fresh_btc, stale_eth]"
    by (simp add: pass_defs batch_defs)
  have g: "rt_quality_score batch_env stale_eth = Returns 0.2 \<and> (0.2::real) < 0.5
      \<and> \<not> rt_log_data_status_raises batch_env stale_eth"
    by (simp add: batch_defs)
  have f: "filter (accepted batch_env) [fresh_btc, stale_eth] = [fresh_btc]"
    "filter (\<lambda>d. \<not> accepted batch_env d) [fresh_btc, stale_eth] = [stale_eth]"
    by (simp_all add: accepted_def batch_defs)
  have m: "[RtCacheList (map (cache_item_of batch_env) [fresh_btc, stale_eth])]
      @ map (\<lambda>d. RtCacheOne (s_symbol d) (cache_item_of batch_env d)) [fresh_btc, stale_eth]
      @ [RtDisconnect]
      = [RtCacheList [cache_item_of batch_env fresh_btc, cache_item_of batch_env stale_eth],
         RtCacheOne ''BTC'' (cache_item_of batch_env fresh_btc),
         RtCacheOne ''ETH'' (cache_item_of batch_env stale_eth),
         RtDisconnect]"
    by (simp add: fresh_btc_def stale_eth_def)
  note t = realtime_pass_gate_and_cache
    [where env = batch_env and data = "[fresh_btc, stale_eth]" and d = stale_eth
       and q = "0.2" and ds = "[]"]
  from h t obtain evs where e: "snd (process_and_store_realtime_data batch_env) =
            [RtConnect, RtScrape] @ evs
            @ [RtCacheList (map (cache_item_of batch_env) [fresh_btc, stale_eth])]
            @ map (\<lambda>d. RtCacheOne (s_symbol d) (cache_item_of batch_env d)) [fresh_btc, stale_eth]
            @ [RtDisconnect]"
      "inserted evs = filter (accepted batch_env) [fresh_btc, stale_eth]"
      "skipped evs = filter (\<lambda>d. \<not> accepted batch_env d) [fresh_btc, stale_eth]"
    by blast
  have t1: "\<exists>evs. snd (process_and_store_realtime_data batch_env) =
            [RtConnect, RtScrape] @ evs
            @ [RtCacheList [cache_item_of batch_env fresh_btc, cache_item_of batch_env stale_eth],
               RtCacheOne ''BTC'' (cache_item_of batch_env fresh_btc),
               RtCacheOne ''ETH'' (cache_item_of batch_env stale_eth),
               RtDisconnect]
          \<and> inserted evs = [fresh_btc] \<and> skipped evs = [stale_eth]"
    using e unfolding f m by blast
  from g t have t2: "store_samples batch_env [stale_eth]
      = ([RtQuality stale_eth, RtLogSkipped stale_eth], True)"
    by simp
  from t have t3: "set (inserted (snd (process_and_store_realtime_data batch_env)))
        \<subseteq> {d. accepted batch_env d}"
    by blast
  from h g t1 t2 t3 show ?thesis by blast
qed

lemma store_current_ok:
  "\<not> list_ex (\<lambda>d. dp_insert_current_price env d = Raises) ds \<Longrightarrow>
     \<exists>evs. store_current env ds = (evs, True)
       \<and> (\<forall>d \<in> set ds. DpInsert d \<in> set evs
             \<and> (dp_insert_current_price env d = Returns False
                   \<longrightarrow> DpLogStoreFailed d \<in> set evs))"
proof (induction ds)
  case Nil
  then show ?case by simp
next
  case (Cons d ds)
  then obtain ok where ok: "dp_insert_current_price env d = Returns ok"
    by (cases "dp_insert_current_price env d") auto
  from Cons obtain e2 where e2: "store_current env ds = (e2, True)"
      "\<forall>d \<in> set ds. DpInsert d \<in> set e2
         \<and> (dp_insert_current_price env d = Returns False \<longrightarrow> DpLogStoreFailed d \<in> set e2)"
    by auto
  from ok e2 show ?case by auto
qed

lemma store_current_raises:
  "list_ex (\<lambda>d. dp_insert_current_price env d = Raises) ds \<Longrightarrow>
     snd (store_current env ds) = False"
proof (induction ds)
  case Nil
  then show ?case by simp
next
  case (Cons d ds)
  then show ?case
    by (cases "dp_insert_current_price env d"; cases "store_current env ds") auto
qed

lemma store_rows_ok:
  "\<not> list_ex (\<lambda>row. dp_insert_historical_data env timeframe row = Raises) rows \<Longrightarrow>
     \<exists>evs. store_rows env timeframe rows = (evs, True)
       \<and> (\<forall>row \<in> set rows. DpInsertHist timeframe row \<in> set evs
             \<and> (dp_insert_historical_data env timeframe row = Returns False
                   \<longrightarrow> DpLogHistFailed timeframe row \<in> set evs))"
proof (induction rows)
  case Nil
  then show ?case by simp
next
  case (Cons row rows)
  then obtain ok where ok: "dp_insert_historical_data env timeframe row = Returns ok"
    by (cases "dp_insert_historical_data env timeframe row") auto
  from Cons obtain e2 where e2: "store_rows env timeframe rows = (e2, True)"
      "\<forall>row \<in> set rows. DpInsertHist timeframe row \<in> set e2
         \<and> (dp_insert_historical_data env timeframe row = Returns False
               \<longrightarrow> DpLogHistFailed timeframe row \<in> set e2)"
    by auto
  from ok e2 show ?case by auto
qed

lemma store_rows_raises:
  "list_ex (\<lambda>row. dp_insert_historical_data env timeframe row = Raises) rows \<Longrightarrow>
     snd (store_rows env timeframe rows) = False"
proof (induction rows)
  case Nil
  then show ?case by simp
next
  case (Cons row rows)
  then show ?case
    by (cases "dp_insert_historical_data env timeframe row";
        cases "store_rows env timeframe rows") auto
qed

lemma store_historical_ok:
  "\<not> list_ex (\<lambda>(timeframe, df).
       list_ex (\<lambda>row. dp_insert_historical_data env timeframe row = Raises) df) frames \<Longrightarrow>
     \<exists>evs. store_historical env frames = (evs, True)
       \<and> (\<forall>(timeframe, df) \<in> set frames. \<forall>row \<in> set df.
             DpInsertHist timeframe row \<in> set evs
             \<and> (dp_insert_historical_data env timeframe row = Returns False
                   \<longrightarrow> DpLogHistFailed timeframe row \<in> set evs))"
proof (induction frames)
  case Nil
  then show ?case by simp
next
  case (Cons f frames)
  obtain timeframe df where f: "f = (timeframe, df)" by (cases f)
  with Cons.prems store_rows_ok [of env timeframe df]
  obtain e1 where e1: "store_rows env timeframe df = (e1, True)"
      "\<forall>row \<in> set df. DpInsertHist timeframe row \<in> set e1
         \<and> (dp_insert_historical_data env timeframe row = Returns False
               \<longrightarrow> DpLogHistFailed timeframe row \<in> set e1)"
    by auto
  from Cons obtain e2 where e2: "store_historical env frames = (e2, True)"
      "\<forall>(timeframe, df) \<in> set frames. \<forall>row \<in> set df.
             DpInsertHist timeframe row \<in> set e2
             \<and> (dp_insert_historical_data env timeframe row = Returns False
                   \<longrightarrow> DpLogHistFailed timeframe row \<in> set e2)"
    by auto
  have "store_historical env (f # frames) = (e1 @ e2, True)"
    by (simp add: f e1(1) e2(1))
  moreover have "\<forall>(timeframe, df) \<in> set (f # frames). \<forall>row \<in> set df.
             DpInsertHist timeframe row \<in> set (e1 @ e2)
             \<and> (dp_insert_historical_data env timeframe row = Returns False
                   \<longrightarrow> DpLogHistFailed timeframe row \<in> set (e1 @ e2))"
    using e1(2) e2(2) f by auto
  ultimately show ?case by blast
qed

lemma store_historical_raises:
  "list_ex (\<lambda>(timeframe, df).
       list_ex (\<lambda>row. dp_insert_historical_data env timeframe row = Raises) df) frames \<Longrightarrow>
     snd (store_historical env frames) = False"
proof (induction frames)
  case Nil
  then show ?case by simp
next
  case (Cons f frames)
  obtain timeframe df where f: "f = (timeframe, df)" by (cases f)
  show ?case
  proof (cases "list_ex (\<lambda>row. dp_insert_historical_data env timeframe row = Raises) df")
    case True
    from store_rows_raises [OF this] f show ?thesis
      by (cases "store_rows env timeframe df") auto
  next
    case False
    with Cons f have "snd (store_historical env frames) = False" by simp
    with f show ?thesis
      by (cases "store_rows env timeframe df"; cases "store_historical env frames")
         (auto split: bool.splits)
  qed
qed

lemma data_pass_trace:
  assumes c: "dp_connect env = Returns True"
    and s: "dp_scrape env = Returns (cur, Some frames)"
    and nr: "\<not> dp_pass_raises env (current_samples cur) frames"
  shows "\<exists>evs. process_and_store_data env = (Returns True, evs)
           \<and> (\<forall>d \<in> set (current_samples cur). DpInsert d \<in> set evs
                 \<and> (dp_insert_current_price env d = Returns False
                       \<longrightarrow> DpLogStoreFailed d \<in> set evs))
           \<and> (\<forall>(timeframe, df) \<in> set frames. \<forall>row \<in> set df.
                 DpInsertHist timeframe row \<in> set evs
                 \<and> (dp_insert_historical_data env timeframe row = Returns False
                       \<longrightarrow> DpLogHistFailed timeframe row \<in> set evs))"
proof -
  from nr have n1: "\<not> list_ex (\<lambda>d. dp_insert_current_price env d = Raises) (current_samples cur)"
    and n2: "\<not> list_ex (\<lambda>(timeframe, df).
       list_ex (\<lambda>row. dp_insert_historical_data env timeframe row = Raises) df) frames"
    by (simp_all add: dp_pass_raises_def)
  from store_current_ok [OF n1]
  obtain e1 where e1: "store_current env (current_samples cur) = (e1, True)"
      "\<forall>d \<in> set (current_samples cur). DpInsert d \<in> set e1
         \<and> (dp_insert_current_price env d = Returns False \<longrightarrow> DpLogStoreFailed d \<in> set e1)"
    by blast
  from store_historical_ok [OF n2]
  obtain e2 where e2: "store_historical env frames = (e2, True)"
      "\<forall>(timeframe, df) \<in> set frames. \<forall>row \<in> set df.
             DpInsertHist timeframe row \<in> set e2
             \<and> (dp_insert_historical_data env timeframe row = Returns False
                   \<longrightarrow> DpLogHistFailed timeframe row \<in> set e2)"
    by blast
  have "process_and_store_data env
          = (Returns True, [DpConnect, DpScrape] @ e1 @ e2 @ [DpDisconnect])"
    using e1(1) e2(1) by (simp add: process_and_store_data_def c s current_samples_def)
  moreover have "\<forall>d \<in> set (current_samples cur).
      DpInsert d \<in> set ([DpConnect, DpScrape] @ e1 @ e2 @ [DpDisconnect])
      \<and> (dp_insert_current_price env d = Returns False
            \<longrightarrow> DpLogStoreFailed d \<in> set ([DpConnect, DpScrape] @ e1 @ e2 @ [DpDisconnect]))"
    using e1(2) by auto
  moreover have "\<forall>(timeframe, df) \<in> set frames. \<forall>row \<in> set df.
      DpInsertHist timeframe row \<in> set ([DpConnect, DpScrape] @ e1 @ e2 @ [DpDisconnect])
      \<and> (dp_insert_historical_data env timeframe row = Returns False
            \<longrightarrow> DpLogHistFailed timeframe row
                  \<in> set ([DpConnect, DpScrape] @ e1 @ e2 @ [DpDisconnect]))"
    using e2(2) by auto
  ultimately show ?thesis by blast
qed

lemma data_pass_result:
  assumes c: "dp_connect env = Returns True"
    and s: "dp_scrape env = Returns (cur, Some frames)"
  shows "fst (process_and_store_data env)
           = Returns (\<not> dp_pass_raises env (current_samples cur) frames)"
proof (cases "dp_pass_raises env (current_samples cur) frames")
  case False
  from data_pass_trace [OF c s False] False show ?thesis by auto
next
  case True
  show ?thesis
  proof (cases "list_ex (\<lambda>d. dp_insert_current_price env d = Raises) (current_samples cur)")
    case r1: True
    from store_current_raises [OF this] True c s show ?thesis
      by (cases "store_current env (current_samples cur)")
         (auto simp: process_and_store_data_def current_samples_def)
  next
    case r1: False
    from store_current_ok [OF this]
    obtain e1 where e1: "store_current env (current_samples cur) = (e1, True)" by blast
    from True r1 have "list_ex (\<lambda>(timeframe, df).
       list_ex (\<lambda>row. dp_insert_historical_data env timeframe row = Raises) df) frames"
      by (simp add: dp_pass_raises_def)
    from store_historical_raises [OF this] True c s e1 show ?thesis
      by (cases "store_historical env frames")
         (auto simp: process_and_store_data_def current_samples_def)
  qed
qed

lemma data_pass_no_frames:
  assumes "dp_connect env = Returns True" "dp_scrape env = Returns (cur, None)"
  shows "fst (process_and_store_data env) = Returns False"
  using assms
  by (cases "store_current env (case cur of None \<Rightarrow> [] | Some ds \<Rightarrow> ds)")
     (auto simp: process_and_store_data_def split: bool.splits)

text \<open>
  C3, as stated, fails: with a store that refuses the connection the realtime pass
  returns \<open>False\<close> at once, although the acquisition would have answered with two
  samples and no call in the batch would have raised.
\<close>

theorem store_down_pass_returns_false:
  "fst (process_and_store_realtime_data store_down_env) = Returns False
   \<and> rt_scrape store_down_env = Returns (Some [fresh_btc, stale_eth])
   \<and> \<not> rt_pass_raises store_down_env [fresh_btc, stale_eth]"
  by (simp add: pass_defs batch_defs)

text \<open>
  C3, amended. An ingestion pass returns \<open>False\<close> exactly when the store connection is
  refused, or, with the connection open, the acquisition raises or yields no data
  (the realtime pass; for the batch pass: it yields no historical dictionary), or a
  call that the pass makes raises an exception. When the connection opens, the
  acquisition answers and no call of the pass raises, the pass returns \<open>True\<close>
  whatever the inserts report: every accepted sample (realtime pass), every sample
  and every historical row (batch pass) is handed to its insert, and an insert that
  reports failure is logged and the pass goes on.
\<close>

theorem ingestion_pass_result:
  "(fst (process_and_store_realtime_data env) = Returns False \<longleftrightarrow>
      rt_connect env = Returns False
      \<or> (rt_connect env = Returns True
          \<and> (rt_scrape env = Raises \<or> rt_scrape env = Returns None
              \<or> rt_scrape env = Returns (Some [])
              \<or> (\<exists>data. rt_scrape env = Returns (Some data) \<and> rt_pass_raises env data))))
   \<and> (rt_connect env = Returns True \<and> rt_scrape env = Returns (Some data) \<and> data \<noteq> []
        \<and> \<not> rt_pass_raises env data \<longrightarrow>
      fst (process_and_store_realtime_data env) = Returns True
      \<and> (\<forall>d \<in> set data. accepted env d \<longrightarrow>
            RtInsert d \<in> set (snd (process_and_store_realtime_data env))
            \<and> (rt_insert_current_price env d = Returns False
                  \<longrightarrow> RtLogStoreFailed d \<in> set (snd (process_and_store_realtime_data env)))))
   \<and> (fst (process_and_store_data denv) = Returns False \<longleftrightarrow>
        dp_connect denv = Returns False
        \<or> (dp_connect denv = Returns True
            \<and> (dp_scrape denv = Raises
                \<or> (\<exists>cur. dp_scrape denv = Returns (cur, None))
                \<or> (\<exists>cur frames. dp_scrape denv = Returns (cur, Some frames)
                      \<and> dp_pass_raises denv (current_samples cur) frames))))
   \<and> (dp_connect denv = Returns True \<and> dp_scrape denv = Returns (cur, Some frames)
        \<and> \<not> dp_pass_raises denv (current_samples cur) frames \<longrightarrow>
      fst (process_and_store_data denv) = Returns True
      \<and> (\<forall>d \<in> set (current_samples cur).
            DpInsert d \<in> set (snd (process_and_store_data denv))
            \<and> (dp_insert_current_price denv d = Returns False
                  \<longrightarrow> DpLogStoreFailed d \<in> set (snd (process_and_store_data denv))))
      \<and> (\<forall>(timeframe, df) \<in> set frames. \<forall>row \<in> set df.
            DpInsertHist timeframe row \<in> set (snd (process_and_store_data denv))
            \<and> (dp_insert_historical_data denv timeframe row = Returns False
                  \<longrightarrow> DpLogHistFailed timeframe row
                        \<in> set (snd (process_and_store_data denv)))))"
proof -
  have rt_iff: "fst (process_and_store_realtime_data env) = Returns False \<longleftrightarrow>
      rt_connect env = Returns False
      \<or> (rt_connect env = Returns True
          \<and> (rt_scrape env = Raises \<or> rt_scrape env = Returns None
              \<or> rt_scrape env = Returns (Some [])
              \<or> (\<exists>data. rt_scrape env = Returns (Some data) \<and> rt_pass_raises env data)))"
  proof (cases "rt_connect env")
    case Raises
    then show ?thesis by (simp add: process_and_store_realtime_data_def)
  next
    case (Returns b)
    show ?thesis
    proof (cases b)
      case False
      with Returns show ?thesis by (simp add: process_and_store_realtime_data_def)
    next
      case True
      with Returns have c: "rt_connect env = Returns True" by simp
      show ?thesis
      proof (cases "rt_scrape env")
        case Raises
        with c show ?thesis by (simp add: process_and_store_realtime_data_def)
      next
        case r: (Returns answer)
        show ?thesis
        proof (cases answer)
          case None
          with c r show ?thesis by (simp add: process_and_store_realtime_data_def)
        next
          case (Some ds)
          show ?thesis
          proof (cases "ds = []")
            case True
            with c r Some show ?thesis by (simp add: process_and_store_realtime_data_def)
          next
            case False
            with c r Some realtime_pass_result [of env ds] show ?thesis by simp
          qed
        qed
      qed
    qed
  qed
  have rt_ok: "fst (process_and_store_realtime_data env) = Returns True
      \<and> (\<forall>d \<in> set data. accepted env d \<longrightarrow>
            RtInsert d \<in> set (snd (process_and_store_realtime_data env))
            \<and> (rt_insert_current_price env d = Returns False
                  \<longrightarrow> RtLogStoreFailed d \<in> set (snd (process_and_store_realtime_data env))))"
    if h: "rt_connect env = Returns True \<and> rt_scrape env = Returns (Some data) \<and> data \<noteq> []
        \<and> \<not> rt_pass_raises env data"
  proof -
    from realtime_pass_trace [of env data] h
    obtain evs where p: "process_and_store_realtime_data env =
           (Returns True,
            [RtConnect, RtScrape] @ evs @ [RtCacheList (map (cache_item_of env) data)]
            @ map (\<lambda>d. RtCacheOne (s_symbol d) (cache_item_of env d)) data @ [RtDisconnect])"
      and l: "\<forall>d \<in> set data. accepted env d \<longrightarrow> RtInsert d \<in> set evs
              \<and> (rt_insert_current_price env d = Returns False
                    \<longrightarrow> RtLogStoreFailed d \<in> set evs)"
      by blast
    from l show ?thesis unfolding p by auto
  qed
  have dp_iff: "fst (process_and_store_data denv) = Returns False \<longleftrightarrow>
        dp_connect denv = Returns False
        \<or> (dp_connect denv = Returns True
            \<and> (dp_scrape denv = Raises
                \<or> (\<exists>cur. dp_scrape denv = Returns (cur, None))
                \<or> (\<exists>cur frames. dp_scrape denv = Returns (cur, Some frames)
                      \<and> dp_pass_raises denv (current_samples cur) frames)))"
  proof (cases "dp_connect denv")
    case Raises
    then show ?thesis by (simp add: process_and_store_data_def)
  next
    case (Returns b)
    show ?thesis
    proof (cases b)
      case False
      with Returns show ?thesis by (simp add: process_and_store_data_def)
    next
      case True
      with Returns have c: "dp_connect denv = Returns True" by simp
      show ?thesis
      proof (cases "dp_scrape denv")
        case Raises
        with c show ?thesis by (simp add: process_and_store_data_def)
      next
        case r: (Returns answer)
        obtain cur' hist where a: "answer = (cur', hist)" by (cases answer)
        show ?thesis
        proof (cases hist)
          case None
          with c r a data_pass_no_frames [of denv cur'] show ?thesis by simp
        next
          case (Some frames')
          with c r a data_pass_result [of denv cur' frames'] show ?thesis by simp
        qed
      qed
    qed
  qed
  have dp_ok: "fst (process_and_store_data denv) = Returns True
      \<and> (\<forall>d \<in> set (current_samples cur).
            DpInsert d \<in> set (snd (process_and_store_data denv))
            \<and> (dp_insert_current_price denv d = Returns False
                  \<longrightarrow> DpLogStoreFailed d \<in> set (snd (process_and_store_data denv))))
      \<and> (\<forall>(timeframe, df) \<in> set frames. \<forall>row \<in> set df.
            DpInsertHist timeframe row \<in> set (snd (process_and_store_data denv))
            \<and> (dp_insert_historical_data denv timeframe row = Returns False
                  \<longrightarrow> DpLogHistFailed timeframe row
                        \<in> set (snd (process_and_store_data denv))))"
    if h: "dp_connect denv = Returns True \<and> dp_scrape denv = Returns (cur, Some frames)
        \<and> \<not> dp_pass_raises denv (current_samples cur) frames"
  proof -
    from data_pass_trace [of denv cur frames] h
    obtain evs where p: "process_and_store_data denv = (Returns True, evs)"
      and l: "\<forall>d \<in> set (current_samples cur). DpInsert d \<in> set evs
                 \<and> (dp_insert_current_price denv d = Returns False
                       \<longrightarrow> DpLogStoreFailed d \<in> set evs)"
        "\<forall>(timeframe, df) \<in> set frames. \<forall>row \<in> set df.
                 DpInsertHist timeframe row \<in> set evs
                 \<and> (dp_insert_historical_data denv timeframe row = Returns False
                       \<longrightarrow> DpLogHistFailed timeframe row \<in> set evs)"
      by blast
    from l show ?thesis unfolding p by simp
  qed
  from rt_iff rt_ok dp_iff dp_ok show ?thesis by blast
qed

theorem ingestion_pass_result_witness:
  "rt_connect picky_env = Returns True
   \<and> rt_scrape picky_env = Returns (Some [fresh_btc, stale_eth])
   \<and> \<not> rt_pass_raises picky_env [fresh_btc, stale_eth]
   \<and> rt_insert_current_price picky_env fresh_btc = Returns False
   \<and> fst (process_and_store_realtime_data picky_env) = Returns True
   \<and> RtInsert fresh_btc \<in> set (snd (process_and_store_realtime_data picky_env))
   \<and> RtLogStoreFailed fresh_btc \<in> set (snd (process_and_store_realtime_data picky_env))
   \<and> dp_connect dp_batch_env = Returns True
   \<and> \<not> dp_pass_raises dp_batch_env [fresh_btc] [(''hour'', [hour_frame_row])]
   \<and> fst (process_and_store_data dp_batch_env) = Returns True
   \<and> DpLogStoreFailed fresh_btc \<in> set (snd (process_and_store_data dp_batch_env))
   \<and> DpLogHistFailed ''hour'' hour_frame_row \<in> set (snd (process_and_store_data dp_batch_env))
   \<and> rt_pass_raises raising_insert_env [fresh_btc, stale_eth]
   \<and> fst (process_and_store_realtime_data raising_insert_env) = Returns False
   \<and> rt_connect store_down_env = Returns False
   \<and> fst (process_and_store_realtime_data store_down_env) = Returns False"
proof -
  have h: "rt_connect picky_env = Returns True
      \<and> rt_scrape picky_env = Returns (Some [fresh_btc, stale_eth])
      \<and> [fresh_btc, stale_eth] \<noteq> [] \<and> \<not> rt_pass_raises picky_env [fresh_btc, stale_eth]"
    by (simp add: picky_env_def pass_defs batch_defs)
  have a: "fresh_btc \<in> set [fresh_btc, stale_eth]" "accepted picky_env fresh_btc"
    "rt_insert_current_price picky_env fresh_btc = Returns False"
    by (simp_all add: picky_env_def accepted_def batch_defs)
  have d: "dp_connect dp_batch_env = Returns True
      \<and> dp_scrape dp_batch_env = Returns (Some [fresh_btc], Some [(''hour'', [hour_frame_row])])
      \<and> \<not> dp_pass_raises dp_batch_env (current_samples (Some [fresh_btc]))
             [(''hour'', [hour_frame_row])]"
    by (simp add: pass_defs batch_defs)
  have c: "current_samples (Some [fresh_btc]) = [fresh_btc]"
    by (simp add: current_samples_def)
  have f: "dp_insert_current_price dp_batch_env fresh_btc = Returns False"
    "dp_insert_historical_data dp_batch_env ''hour'' hour_frame_row = Returns False"
    by (simp_all add: dp_batch_env_def)
  have r: "rt_connect raising_insert_env = Returns True
      \<and> rt_scrape raising_insert_env = Returns (Some [fresh_btc, stale_eth])
      \<and> rt_pass_raises raising_insert_env [fresh_btc, stale_eth]"
    by (simp add: raising_insert_env_def pass_defs batch_defs)
  have s: "rt_connect store_down_env = Returns False"
    by (simp add: batch_defs)
  note t = ingestion_pass_result
    [where env = picky_env and data = "[fresh_btc, stale_eth]" and denv = dp_batch_env
       and cur = "Some [fresh_btc]" and frames = "[(''hour'', [hour_frame_row])]"]
  from h t have t1: "fst (process_and_store_realtime_data picky_env) = Returns True"
    and t2: "\<forall>d \<in> set [fresh_btc, stale_eth]. accepted picky_env d \<longrightarrow>
            RtInsert d \<in> set (snd (process_and_store_realtime_data picky_env))
            \<and> (rt_insert_current_price picky_env d = Returns False
                  \<longrightarrow> RtLogStoreFailed d \<in> set (snd (process_and_store_realtime_data picky_env)))"
    by blast+
  from d t have t3: "fst (process_and_store_data dp_batch_env) = Returns True"
    and t4: "\<forall>d \<in> set (current_samples (Some [fresh_btc])).
            DpInsert d \<in> set (snd (process_and_store_data dp_batch_env))
            \<and> (dp_insert_current_price dp_batch_env d = Returns False
                  \<longrightarrow> DpLogStoreFailed d \<in> set (snd (process_and_store_data dp_batch_env)))"
    and t5: "\<forall>(timeframe, df) \<in> set [(''hour'', [hour_frame_row])]. \<forall>row \<in> set df.
            DpInsertHist timeframe row \<in> set (snd (process_and_store_data dp_batch_env))
            \<and> (dp_insert_historical_data dp_batch_env timeframe row = Returns False
                  \<longrightarrow> DpLogHistFailed timeframe row
                        \<in> set (snd (process_and_store_data dp_batch_env)))"
    by blast+
  from t2 a have u2: "RtInsert fresh_btc \<in> set (snd (process_and_store_realtime_data picky_env))
      \<and> RtLogStoreFailed fresh_btc \<in> set (snd (process_and_store_realtime_data picky_env))"
    by simp
  from t4 c f have u4: "DpLogStoreFailed fresh_btc \<in> set (snd (process_and_store_data dp_batch_env))"
    by simp
  from t5 f have u5: "DpLogHistFailed ''hour'' hour_frame_row
      \<in> set (snd (process_and_store_data dp_batch_env))"
    by simp
  from r ingestion_pass_result [where env = raising_insert_env and denv = dp_batch_env]
  have u6: "fst (process_and_store_realtime_data raising_insert_env) = Returns False"
    by blast
  from s ingestion_pass_result [where env = store_down_env and denv = dp_batch_env]
  have u7: "fst (process_and_store_realtime_data store_down_env) = Returns False"
    by blast
  from h a(3) d c t1 u2 t3 u4 u5 r u6 s u7 show ?thesis by simp
qed

section \<open>The scheduler\<close>

text \<open>The realtime loop returns only at an interrupt.\<close>

lemma run_realtime_processor_returns:
  assumes "run_realtime_processor rounds i = Some k"
  shows "i \<le> k \<and> rounds k = Interrupted"
proof (rule run_realtime_processor.raw_induct
         [where P = "\<lambda>rounds i k. i \<le> k \<and> rounds k = Interrupted", OF _ assms])
  fix loop :: "(nat \<Rightarrow> round) \<Rightarrow> nat \<Rightarrow> nat option" and rs j y
  assume ih: "\<And>r b y. loop r b = Some y \<Longrightarrow> b \<le> y \<and> r y = Interrupted"
    and eq: "(if rs j = Interrupted then Some j else loop rs (Suc j)) = Some y"
  show "j \<le> y \<and> rs y = Interrupted"
  proof (cases "rs j = Interrupted")
    case True
    with eq show ?thesis by simp
  next
    case False
    with eq have "loop rs (Suc j) = Some y" by simp
    from ih [OF this] show ?thesis by simp
  qed
qed

lemma run_realtime_processor_diverges:
  "\<forall>k. rounds k \<noteq> Interrupted \<Longrightarrow> run_realtime_processor rounds i = None"
proof (cases "run_realtime_processor rounds i")
  case None
  then show ?thesis .
next
  case (Some k)
  assume "\<forall>k. rounds k \<noteq> Interrupted"
  with run_realtime_processor_returns [OF Some] show ?thesis by simp
qed

lemma run_realtime_processor_terminates:
  "rounds k = Interrupted \<Longrightarrow> i \<le> k \<Longrightarrow> \<exists>j. run_realtime_processor rounds i = Some j"
proof (induction "k - i" arbitrary: i)
  case 0
  then have "i = k" by simp
  with 0 show ?case by (subst run_realtime_processor.simps) simp
next
  case (Suc n)
  then have "\<exists>j. run_realtime_processor rounds (Suc i) = Some j" by simp
  then show ?case by (subst run_realtime_processor.simps) simp
qed

text \<open>
  The realtime handler returns to its caller exactly when the loop is interrupted,
  and then logs a failure, the loop's value being \<open>None\<close>.
\<close>

lemma run_realtime_task_exit:
  "run_realtime_task env =
     (if \<exists>k. realtime_rounds env k = Interrupted
      then ([TaskStart Realtime, TaskFailed Realtime], Normal)
      else ([TaskStart Realtime], NeverReturns))"
proof (cases "\<exists>k. realtime_rounds env k = Interrupted")
  case True
  then obtain k where "realtime_rounds env k = Interrupted" by blast
  with run_realtime_processor_terminates [of "realtime_rounds env" k 0]
  obtain j where "run_realtime_processor (realtime_rounds env) 0 = Some j" by auto
  with True show ?thesis by (simp add: run_realtime_task_def run_task_def)
next
  case False
  then have "run_realtime_processor (realtime_rounds env) 0 = None"
    by (simp add: run_realtime_processor_diverges)
  with False show ?thesis by (simp add: run_realtime_task_def run_task_def)
qed

text \<open>
  The wrappers catch the exception of a body: the handler logs it and returns. A
  handler returns to the loop exactly when its body ends without an interrupt.
\<close>

lemma wrappers_catch_exceptions:
  "run_task j (Some Error) = ([TaskStart j, TaskException j], Normal)"
  "full_data_result env = Some Error \<Longrightarrow>
     run_full_processing env
       = ([TaskStart FullProcessing, TaskException FullProcessing], Normal)"
  "full_data_result env = Some (Done ok) \<Longrightarrow> full_analysis_result env = Some Error \<Longrightarrow>
     run_full_processing env
       = ([TaskStart FullProcessing, step_log ok, TaskException FullProcessing], Normal)"
  by (simp_all add: run_task_def run_full_processing_def)

lemma run_task_normal:
  "snd (run_task j body) = Normal \<longleftrightarrow> body \<noteq> None \<and> body \<noteq> Some Interrupt"
  by (auto simp: run_task_def split: option.splits body_result.splits bool.splits)

lemma handler_returns_iff: "snd (run_job env j) = Normal \<longleftrightarrow> body_ends env j"
proof (cases j)
  case DataCollection
  then show ?thesis by (simp add: run_data_collection_task_def run_task_normal)
next
  case Realtime
  then show ?thesis by (simp add: run_realtime_task_def run_task_normal)
next
  case Analysis
  then show ?thesis by (simp add: run_analysis_task_def run_task_normal)
next
  case FullProcessing
  then show ?thesis
    by (auto simp: run_full_processing_def split: option.splits body_result.splits)
qed

lemma run_task_started: "started (fst (run_task j body)) = [j]"
  by (auto simp: run_task_def split: option.splits body_result.splits bool.splits)

lemma run_job_started: "started (fst (run_job env j)) = [j]"
proof (cases j)
  case FullProcessing
  then show ?thesis
    by (auto simp: run_full_processing_def step_log_def
             split: option.splits body_result.splits)
qed (simp_all add: run_data_collection_task_def run_realtime_task_def run_analysis_task_def
       run_task_started)

lemma started_append: "started (a @ b) = started a @ started b"
  by (induction a rule: started.induct) auto

text \<open>
  With the library bound: a round in which the body of every due job ends runs all
  of them, in order.
\<close>

lemma run_pending_all_end:
  "list_all (body_ends env) due \<Longrightarrow>
     snd (run_pending env due) = Normal \<and> started (fst (run_pending env due)) = due"
proof (induction due)
  case Nil
  then show ?case by simp
next
  case (Cons j js)
  then have "snd (run_job env j) = Normal" by (simp add: handler_returns_iff)
  then obtain l where l: "run_job env j = (l, Normal)" by (cases "run_job env j") auto
  with run_job_started [of env j] have s: "started l = [j]" by simp
  from Cons obtain l' where l': "run_pending env js = (l', Normal)" "started l' = js"
    by (cases "run_pending env js") auto
  from l l' s show ?case by (simp add: started_append)
qed

lemma busy_realtime_never_returns:
  "run_realtime_task busy_env = ([TaskStart Realtime], NeverReturns)"
  by (simp add: run_realtime_task_exit busy_env_def never_interrupted_def)

text \<open>
  C5. The wrappers do catch and log an exception of their body, as the claim says,
  and the code breaks the rest of the claim in two places. As written,
  \<open>CryptoScheduler.run\<close> raises \<open>NameError\<close> in \<open>setup_schedule\<close>, before the first
  round, so no job is ever dispatched. With the name \<open>schedule\<close> bound, the realtime
  handler runs the endless loop of \<open>run_realtime_processor\<close>: when the realtime job
  and the collection job are due in the same round and the loop is not interrupted,
  the handler never returns and the collection job, whose own handler returns, is
  never started in that round.
\<close>

theorem scheduler_run_blocks_dispatch:
  "run scheduler_py_binds_schedule busy_env [(busy_env, [Realtime, DataCollection])]
     = ([], RaisedNameError)
   \<and> run True busy_env [(busy_env, [Realtime, DataCollection])]
     = ([TaskStart DataCollection, TaskDone DataCollection, TaskStart Realtime], Blocked)
   \<and> run_data_collection_task busy_env
     = ([TaskStart DataCollection, TaskDone DataCollection], Normal)"
proof -
  have c: "run_data_collection_task busy_env
     = ([TaskStart DataCollection, TaskDone DataCollection], Normal)"
    by (simp add: run_data_collection_task_def run_task_def busy_env_def)
  have p: "run_pending busy_env [Realtime, DataCollection] = ([TaskStart Realtime], NeverReturns)"
    by (simp add: busy_realtime_never_returns)
  have d: "dispatch_loop [(busy_env, [Realtime, DataCollection])]
     = ([TaskStart Realtime], Blocked)"
    by (simp add: p del: run_pending.simps)
  have n: "run scheduler_py_binds_schedule busy_env [(busy_env, [Realtime, DataCollection])]
     = ([], RaisedNameError)"
    by (simp add: run_def setup_schedule_def scheduler_py_binds_schedule_def)
  have b: "run True busy_env [(busy_env, [Realtime, DataCollection])]
     = ([TaskStart DataCollection, TaskDone DataCollection, TaskStart Realtime], Blocked)"
    by (simp add: run_def setup_schedule_def c d del: dispatch_loop.simps)
  from n b c show ?thesis by simp
qed

section \<open>The chart curves\<close>

lemma chart_loop_eq:
  "chart_loop fd w i xs acc =
     \<lparr>price_data = price_data acc @ map price_point_of xs,
      volume_data = volume_data acc @ map volume_point_of xs,
      volatility_data = volatility_data acc
        @ map (\<lambda>(k, item). volatility_point_of fd w k item)
            (filter (\<lambda>(k, item). k + 1 \<ge> w) (zip [i..<i + length xs] xs))\<rparr>"
proof (induction xs arbitrary: i acc)
  case Nil
  then show ?case by simp
next
  case (Cons x xs)
  have u: "[i..<i + length (x # xs)] = i # [Suc i..<Suc i + length xs]"
    by (subst upt_rec) simp
  show ?case unfolding u by (simp add: Cons.IH)
qed

lemma filter_upt_from: "filter (\<lambda>k. m \<le> k) [0..<n] = [m..<n]"
proof (induction n)
  case 0
  then show ?case by simp
next
  case (Suc n)
  then show ?case by (cases "m \<le> n") auto
qed

lemma zip_upt_nth: "zip [0..<length xs] xs = map (\<lambda>k. (k, xs ! k)) [0..<length xs]"
  by (rule nth_equalityI) auto

lemma volatility_positions:
  assumes "1 \<le> w"
  shows "map (\<lambda>(k, item). volatility_point_of fd w k item)
            (filter (\<lambda>(k, item). k + 1 \<ge> w) (zip [0..<length xs] xs))
         = map (\<lambda>k. volatility_point_of fd w k (xs ! k)) [w - 1..<length xs]"
proof -
  have "(\<lambda>k. w \<le> k + 1) = (\<lambda>k. w - 1 \<le> k)" using assms by auto
  then have "filter ((\<lambda>(k, item). k + 1 \<ge> w) \<circ> (\<lambda>k. (k, xs ! k))) [0..<length xs]
               = [w - 1..<length xs]"
    by (simp add: comp_def filter_upt_from)
  then show ?thesis
    by (simp add: zip_upt_nth filter_map comp_def)
qed

lemma window_prices_trailing:
  assumes "k + w \<le> length xs" "1 \<le> w"
  shows "window_prices xs w (k + w - 1) = trailing_closes xs w k"
proof -
  have i: "k + w - 1 + 1 = k + w" "k + w - w = k" using assms by auto
  have "map (\<lambda>j. ci_close (xs ! j)) [k..<k + w] = map ci_close (take w (drop k xs))"
  proof (rule nth_equalityI)
    show "length (map (\<lambda>j. ci_close (xs ! j)) [k..<k + w])
            = length (map ci_close (take w (drop k xs)))"
      using assms by simp
  next
    fix i
    assume "i < length (map (\<lambda>j. ci_close (xs ! j)) [k..<k + w])"
    then have i: "i < w" by simp
    with assms have l: "i < length (take w (drop k xs))" by simp
    from i assms have "take w (drop k xs) ! i = xs ! (k + i)" by simp
    with i l show "map (\<lambda>j. ci_close (xs ! j)) [k..<k + w] ! i
                     = map ci_close (take w (drop k xs)) ! i"
      by (simp del: length_take length_drop)
  qed
  then show ?thesis unfolding window_prices_def trailing_closes_def i .
qed

lemma process_chart_data_no_match:
  "matching data symbol = [] \<Longrightarrow> process_chart_data data symbol = no_curves"
  by (simp add: process_chart_data_def matching_def Let_def)

lemma process_chart_data_shape:
  fixes data :: "('d::linorder) chart_item list"
  assumes "matching data symbol \<noteq> []"
  shows "process_chart_data data symbol =
     \<lparr>price_data = map price_point_of (sort_key ci_date (matching data symbol)),
      volume_data = map volume_point_of (sort_key ci_date (matching data symbol)),
      volatility_data =
        map (\<lambda>k. volatility_point_of (sort_key ci_date (matching data symbol))
                   (min 10 (length (matching data symbol))) k
                   (sort_key ci_date (matching data symbol) ! k))
          [min 10 (length (matching data symbol)) - 1..<length (matching data symbol)]\<rparr>"
proof -
  define sd where "sd = sort_key ci_date (matching data symbol)"
  have n: "length sd = length (matching data symbol)" by (simp add: sd_def)
  from assms have d: "data \<noteq> []" by (auto simp: matching_def)
  from assms n have w: "1 \<le> min 10 (length sd)"
    by (cases "matching data symbol") auto
  have "process_chart_data data symbol
          = chart_loop sd (min 10 (length sd)) 0 sd no_curves"
    using assms d by (simp add: process_chart_data_def Let_def sd_def matching_def)
  also have "\<dots> = \<lparr>price_data = map price_point_of sd,
      volume_data = map volume_point_of sd,
      volatility_data =
        map (\<lambda>k. volatility_point_of sd (min 10 (length sd)) k (sd ! k))
          [min 10 (length sd) - 1..<length sd]\<rparr>"
    using volatility_positions [OF w, of sd sd]
    by (simp add: chart_loop_eq no_curves_def)
  finally show ?thesis unfolding n unfolding sd_def .
qed

lemma process_chart_data_lists:
  fixes data :: "('d::linorder) chart_item list"
  shows "price_data (process_chart_data data symbol)
           = map price_point_of (sort_key ci_date (matching data symbol))"
    and "volume_data (process_chart_data data symbol)
           = map volume_point_of (sort_key ci_date (matching data symbol))"
proof -
  show "price_data (process_chart_data data symbol)
           = map price_point_of (sort_key ci_date (matching data symbol))"
  proof (cases "matching data symbol = []")
    case True
    then show ?thesis by (simp add: process_chart_data_no_match no_curves_def)
  next
    case False
    then show ?thesis by (simp add: process_chart_data_shape)
  qed
  show "volume_data (process_chart_data data symbol)
           = map volume_point_of (sort_key ci_date (matching data symbol))"
  proof (cases "matching data symbol = []")
    case True
    then show ?thesis by (simp add: process_chart_data_no_match no_curves_def)
  next
    case False
    then show ?thesis by (simp add: process_chart_data_shape)
  qed
qed

lemma volatility_entry:
  fixes data :: "('d::linorder) chart_item list"
  assumes n: "1 \<le> length (matching data symbol)"
    and k: "k < length (matching data symbol) - min 10 (length (matching data symbol)) + 1"
  shows "volatility_data (process_chart_data data symbol) ! k =
           volatility_point_of (sort_key ci_date (matching data symbol))
             (min 10 (length (matching data symbol)))
             (k + min 10 (length (matching data symbol)) - 1)
             (sort_key ci_date (matching data symbol)
                ! (k + min 10 (length (matching data symbol)) - 1))"
proof -
  from n have ne: "matching data symbol \<noteq> []" by auto
  from n have w: "1 \<le> min 10 (length (matching data symbol))" by simp
  from k w have "k < length (matching data symbol) - (min 10 (length (matching data symbol)) - 1)"
    by linarith
  then have "map (\<lambda>k. volatility_point_of (sort_key ci_date (matching data symbol))
                   (min 10 (length (matching data symbol))) k
                   (sort_key ci_date (matching data symbol) ! k))
          [min 10 (length (matching data symbol)) - 1..<length (matching data symbol)] ! k
        = volatility_point_of (sort_key ci_date (matching data symbol))
             (min 10 (length (matching data symbol)))
             (min 10 (length (matching data symbol)) - 1 + k)
             (sort_key ci_date (matching data symbol)
                ! (min 10 (length (matching data symbol)) - 1 + k))"
    by (rule nth_map_upt)
  moreover from w have "min 10 (length (matching data symbol)) - 1 + k
                          = k + min 10 (length (matching data symbol)) - 1"
    by linarith
  ultimately show ?thesis by (simp add: process_chart_data_shape [OF ne])
qed

lemma volatility_point_fields:
  "vo_volatility (volatility_point_of fd w i item) = population_sd (window_prices fd w i)"
  "vo_volatility_percent (volatility_point_of fd w i item)
     = (if arithmetic_mean (window_prices fd w i) > 0
        then population_sd (window_prices fd w i) / arithmetic_mean (window_prices fd w i) * 100
        else 0)"
  "vo_date (volatility_point_of fd w i item) = ci_date item"
  by (simp_all add: volatility_point_of_def Let_def population_sd_def arithmetic_mean_def
        variance_def mean_price_def)

text \<open>
  C9. For every input list and symbol, with \<open>n\<close> the number of items whose symbol
  matches: \<open>price_data\<close> and \<open>volume_data\<close> hold one entry for each matching item (same
  multiset, length \<open>n\<close>) in ascending order of date, the order of a stable sort;
  for \<open>n \<ge> 1\<close>, \<open>volatility_data\<close> has \<open>n - min(10, n) + 1\<close> entries, the \<open>k\<close>-th of which
  carries the population standard deviation of the closes in the trailing window of
  size \<open>min(10, n)\<close> that ends at position \<open>k + min(10, n) - 1\<close>, and a
  \<open>volatility_percent\<close> of 0 when the mean of the window is not positive; when no
  item matches, the three lists are empty.
\<close>

theorem process_chart_data_curves:
  fixes data :: "('d::linorder) chart_item list"
  shows
  "length (price_data (process_chart_data data symbol)) = length (matching data symbol)
   \<and> length (volume_data (process_chart_data data symbol)) = length (matching data symbol)
   \<and> mset (price_data (process_chart_data data symbol))
       = image_mset price_point_of (mset (matching data symbol))
   \<and> mset (volume_data (process_chart_data data symbol))
       = image_mset volume_point_of (mset (matching data symbol))
   \<and> sorted (map pp_date (price_data (process_chart_data data symbol)))
   \<and> sorted (map vp_date (volume_data (process_chart_data data symbol)))
   \<and> price_data (process_chart_data data symbol)
       = map price_point_of (sort_key ci_date (matching data symbol))
   \<and> volume_data (process_chart_data data symbol)
       = map volume_point_of (sort_key ci_date (matching data symbol))
   \<and> (1 \<le> length (matching data symbol) \<longrightarrow>
        length (volatility_data (process_chart_data data symbol))
          = length (matching data symbol) - min 10 (length (matching data symbol)) + 1)
   \<and> (1 \<le> length (matching data symbol)
        \<and> k < length (matching data symbol) - min 10 (length (matching data symbol)) + 1 \<longrightarrow>
        vo_volatility (volatility_data (process_chart_data data symbol) ! k)
          = population_sd (trailing_closes (sort_key ci_date (matching data symbol))
                             (min 10 (length (matching data symbol))) k)
        \<and> vo_volatility_percent (volatility_data (process_chart_data data symbol) ! k)
          = (if arithmetic_mean (trailing_closes (sort_key ci_date (matching data symbol))
                                   (min 10 (length (matching data symbol))) k) > 0
             then population_sd (trailing_closes (sort_key ci_date (matching data symbol))
                                   (min 10 (length (matching data symbol))) k)
                  / arithmetic_mean (trailing_closes (sort_key ci_date (matching data symbol))
                                       (min 10 (length (matching data symbol))) k) * 100
             else 0)
        \<and> vo_date (volatility_data (process_chart_data data symbol) ! k)
          = ci_date (sort_key ci_date (matching data symbol)
                       ! (k + min 10 (length (matching data symbol)) - 1)))
   \<and> (matching data symbol = [] \<longrightarrow>
        price_data (process_chart_data data symbol) = []
        \<and> volume_data (process_chart_data data symbol) = []
        \<and> volatility_data (process_chart_data data symbol) = [])"
proof -
  have pd: "pp_date \<circ> price_point_of = (ci_date :: 'd chart_item \<Rightarrow> 'd)"
    and vd: "vp_date \<circ> volume_point_of = (ci_date :: 'd chart_item \<Rightarrow> 'd)"
    by (auto simp: price_point_of_def volume_point_of_def)
  have c1: "length (price_data (process_chart_data data symbol)) = length (matching data symbol)"
    and c2: "length (volume_data (process_chart_data data symbol))
               = length (matching data symbol)"
    by (simp_all add: process_chart_data_lists)
  have c3: "mset (price_data (process_chart_data data symbol))
       = image_mset price_point_of (mset (matching data symbol))"
    and c4: "mset (volume_data (process_chart_data data symbol))
       = image_mset volume_point_of (mset (matching data symbol))"
    by (simp_all add: process_chart_data_lists)
  have c5: "sorted (map pp_date (price_data (process_chart_data data symbol)))"
    and c6: "sorted (map vp_date (volume_data (process_chart_data data symbol)))"
    by (simp_all add: process_chart_data_lists pd vd)
  have c7: "1 \<le> length (matching data symbol) \<longrightarrow>
        length (volatility_data (process_chart_data data symbol))
          = length (matching data symbol) - min 10 (length (matching data symbol)) + 1"
  proof
    assume n: "1 \<le> length (matching data symbol)"
    then have "matching data symbol \<noteq> []" by auto
    from process_chart_data_shape [OF this] n show
      "length (volatility_data (process_chart_data data symbol))
          = length (matching data symbol) - min 10 (length (matching data symbol)) + 1"
      by simp
  qed
  have c8: "vo_volatility (volatility_data (process_chart_data data symbol) ! k)
          = population_sd (trailing_closes (sort_key ci_date (matching data symbol))
                             (min 10 (length (matching data symbol))) k)
        \<and> vo_volatility_percent (volatility_data (process_chart_data data symbol) ! k)
          = (if arithmetic_mean (trailing_closes (sort_key ci_date (matching data symbol))
                                   (min 10 (length (matching data symbol))) k) > 0
             then population_sd (trailing_closes (sort_key ci_date (matching data symbol))
                                   (min 10 (length (matching data symbol))) k)
                  / arithmetic_mean (trailing_closes (sort_key ci_date (matching data symbol))
                                       (min 10 (length (matching data symbol))) k) * 100
             else 0)
        \<and> vo_date (volatility_data (process_chart_data data symbol) ! k)
          = ci_date (sort_key ci_date (matching data symbol)
                       ! (k + min 10 (length (matching data symbol)) - 1))"
    if n: "1 \<le> length (matching data symbol)"
      and k: "k < length (matching data symbol) - min 10 (length (matching data symbol)) + 1"
  proof -
    from n k have "k + min 10 (length (matching data symbol))
                     \<le> length (sort_key ci_date (matching data symbol))"
      and "1 \<le> min 10 (length (matching data symbol))"
      by simp_all
    then have "window_prices (sort_key ci_date (matching data symbol))
                 (min 10 (length (matching data symbol)))
                 (k + min 10 (length (matching data symbol)) - 1)
               = trailing_closes (sort_key ci_date (matching data symbol))
                   (min 10 (length (matching data symbol))) k"
      by (rule window_prices_trailing)
    then show ?thesis
      by (simp only: volatility_entry [OF n k] volatility_point_fields)
  qed
  have c9: "matching data symbol = [] \<longrightarrow>
        price_data (process_chart_data data symbol) = []
        \<and> volume_data (process_chart_data data symbol) = []
        \<and> volatility_data (process_chart_data data symbol) = []"
    by (simp add: process_chart_data_no_match no_curves_def)
  from c1 c2 c3 c4 c5 c6 c7 c8 c9 process_chart_data_lists [of data symbol]
  show ?thesis by blast
qed

theorem process_chart_data_curves_witness:
  "1 \<le> length (matching demo_items ''BTC'')
   \<and> (0::nat) < length (matching demo_items ''BTC'')
                  - min 10 (length (matching demo_items ''BTC'')) + 1
   \<and> map pp_date (price_data (process_chart_data demo_items ''BTC'')) = [1, 2]
   \<and> length (volatility_data (process_chart_data demo_items ''BTC'')) = 1
   \<and> vo_volatility (volatility_data (process_chart_data demo_items ''BTC'') ! 0) = 1
   \<and> vo_volatility_percent (volatility_data (process_chart_data demo_items ''BTC'') ! 0)
       = 100 / 11
   \<and> vo_date (volatility_data (process_chart_data demo_items ''BTC'') ! 0) = 2
   \<and> matching demo_items ''SOL'' = []
   \<and> volatility_data (process_chart_data demo_items ''SOL'') = []"
proof -
  have m: "matching demo_items ''BTC'' = [chart_point ''BTC'' 2 12, chart_point ''BTC'' 1 10]"
    "matching demo_items ''SOL'' = []"
    by (simp_all add: matching_def demo_items_def chart_point_def)
  have s: "sort_key ci_date [chart_point ''BTC'' 2 12, chart_point ''BTC'' 1 10]
             = [chart_point ''BTC'' 1 10, chart_point ''BTC'' 2 12]"
    by (simp add: chart_point_def)
  have t: "trailing_closes [chart_point ''BTC'' 1 10, chart_point ''BTC'' 2 12] 2 0 = [10, 12]"
    by (simp add: trailing_closes_def chart_point_def)
  have a: "arithmetic_mean [10, 12] = 11" "population_sd [10, 12] = 1"
    by (simp_all add: population_sd_def arithmetic_mean_def power2_eq_square)
  have h: "1 \<le> length (matching demo_items ''BTC'')
      \<and> (0::nat) < length (matching demo_items ''BTC'')
                     - min 10 (length (matching demo_items ''BTC'')) + 1"
    by (simp add: m)
  note curves = process_chart_data_curves [where data = demo_items and k = 0]
  from curves [where symbol = "''BTC''"]
  have p: "price_data (process_chart_data demo_items ''BTC'')
       = map price_point_of (sort_key ci_date (matching demo_items ''BTC''))"
    by blast
  from h curves [where symbol = "''BTC''"]
  have l: "length (volatility_data (process_chart_data demo_items ''BTC''))
          = length (matching demo_items ''BTC'')
            - min 10 (length (matching demo_items ''BTC'')) + 1"
    by blast
  have v: "vo_volatility (volatility_data (process_chart_data demo_items ''BTC'') ! 0)
          = population_sd (trailing_closes (sort_key ci_date (matching demo_items ''BTC''))
                             (min 10 (length (matching demo_items ''BTC''))) 0)
        \<and> vo_volatility_percent (volatility_data (process_chart_data demo_items ''BTC'') ! 0)
          = (if arithmetic_mean (trailing_closes (sort_key ci_date (matching demo_items ''BTC''))
                                   (min 10 (length (matching demo_items ''BTC''))) 0) > 0
             then population_sd (trailing_closes (sort_key ci_date (matching demo_items ''BTC''))
                                   (min 10 (length (matching demo_items ''BTC''))) 0)
                  / arithmetic_mean (trailing_closes (sort_key ci_date (matching demo_items ''BTC''))
                                       (min 10 (length (matching demo_items ''BTC''))) 0) * 100
             else 0)
        \<and> vo_date (volatility_data (process_chart_data demo_items ''BTC'') ! 0)
          = ci_date (sort_key ci_date (matching demo_items ''BTC'')
                       ! (0 + min 10 (length (matching demo_items ''BTC'')) - 1))"
    by (rule curves [where symbol = "''BTC''", THEN conjunct2, THEN conjunct2, THEN conjunct2,
          THEN conjunct2, THEN conjunct2, THEN conjunct2, THEN conjunct2, THEN conjunct2,
          THEN conjunct2, THEN conjunct1, THEN mp, OF h])
  from m(2) curves [where symbol = "''SOL''"]
  have e: "volatility_data (process_chart_data demo_items ''SOL'') = []"
    by blast
  have p': "map pp_date (price_data (process_chart_data demo_items ''BTC'')) = [1, 2]"
    unfolding p m s by (simp add: price_point_of_def chart_point_def)
  have l': "length (volatility_data (process_chart_data demo_items ''BTC'')) = 1"
    unfolding l m by simp
  have w: "min 10 (length [chart_point ''BTC'' 2 12, chart_point ''BTC'' 1 10]) = 2"
    by simp
  have v': "vo_volatility (volatility_data (process_chart_data demo_items ''BTC'') ! 0) = 1
      \<and> vo_volatility_percent (volatility_data (process_chart_data demo_items ''BTC'') ! 0)
           = 100 / 11
      \<and> vo_date (volatility_data (process_chart_data demo_items ''BTC'') ! 0) = 2"
    using v unfolding m s w t a by (simp add: chart_point_def)
  from h p' l' v' m(2) e show ?thesis by (intro conjI) simp_all
qed

end
